theory Spec2Isabelle
  imports Complex_Main
begin

section \<open>Python values used by the program\<close>

text \<open>
  Strings are byte lists (\<open>string\<close>); a character outside ASCII is written as its UTF-8
  bytes. A value that Python treats as a condition is true when it is a non-empty string;
  \<open>None\<close> is false.
\<close>

definition truthy :: "string \<Rightarrow> bool" where
  "truthy s = (s \<noteq> [])"

text \<open>\<open>x or d\<close> on an optional string \<open>x\<close> and a string \<open>d\<close>.\<close>

definition py_or :: "string option \<Rightarrow> string \<Rightarrow> string" where
  "py_or x d = (case x of None \<Rightarrow> d | Some s \<Rightarrow> if truthy s then s else d)"

text \<open>\<open>all([...])\<close> over a list of conditions.\<close>

definition py_all :: "bool list \<Rightarrow> bool" where
  "py_all bs = foldr (\<and>) bs True"

text \<open>
  \<open>str.strip()\<close> without argument removes the whitespace characters at both ends.
  Python's whitespace characters are U+0009 to U+000D, U+001C to U+0020, U+0085, U+00A0,
  U+1680, U+2000 to U+200A, U+2028, U+2029, U+202F, U+205F and U+3000. In UTF-8 the first
  ten are one byte each, U+0085 and U+00A0 are two bytes and the others three.
\<close>

definition py_isspace :: "char \<Rightarrow> bool" where
  "py_isspace c =
     (c \<in> set [CHR 0x09, CHR 0x0A, CHR 0x0B, CHR 0x0C, CHR 0x0D,
                CHR 0x1C, CHR 0x1D, CHR 0x1E, CHR 0x1F, CHR 0x20])"

definition py_isspace2 :: "char \<Rightarrow> char \<Rightarrow> bool" where
  "py_isspace2 a b = (a = CHR 0xC2 \<and> (b = CHR 0x85 \<or> b = CHR 0xA0))"

definition py_isspace3 :: "char \<Rightarrow> char \<Rightarrow> char \<Rightarrow> bool" where
  "py_isspace3 a b c =
     ((a = CHR 0xE1 \<and> b = CHR 0x9A \<and> c = CHR 0x80)
      \<or> (a = CHR 0xE2 \<and> b = CHR 0x80 \<and>
          c \<in> set [CHR 0x80, CHR 0x81, CHR 0x82, CHR 0x83, CHR 0x84, CHR 0x85, CHR 0x86,
                     CHR 0x87, CHR 0x88, CHR 0x89, CHR 0x8A, CHR 0xA8, CHR 0xA9, CHR 0xAF])
      \<or> (a = CHR 0xE2 \<and> b = CHR 0x81 \<and> c = CHR 0x9F)
      \<or> (a = CHR 0xE3 \<and> b = CHR 0x80 \<and> c = CHR 0x80))"

text \<open>
  Removing the whitespace characters at the front of a byte list. The tests for the
  characters of two and three bytes are parameters, so that the same function serves for
  the end of the string, on the reversed list, with the bytes of a character in reverse.
\<close>

fun strip_front :: "(char \<Rightarrow> char \<Rightarrow> bool) \<Rightarrow> (char \<Rightarrow> char \<Rightarrow> char \<Rightarrow> bool) \<Rightarrow> string \<Rightarrow> string" where
  "strip_front sp2 sp3 [] = []"
| "strip_front sp2 sp3 [a] = (if py_isspace a then [] else [a])"
| "strip_front sp2 sp3 [a, b] =
     (if py_isspace a then strip_front sp2 sp3 [b]
      else if sp2 a b then [] else [a, b])"
| "strip_front sp2 sp3 (a # b # c # s) =
     (if py_isspace a then strip_front sp2 sp3 (b # c # s)
      else if sp2 a b then strip_front sp2 sp3 (c # s)
      else if sp3 a b c then strip_front sp2 sp3 s
      else a # b # c # s)"

definition py_lstrip :: "string \<Rightarrow> string" where
  "py_lstrip s = strip_front py_isspace2 py_isspace3 s"

definition py_rstrip :: "string \<Rightarrow> string" where
  "py_rstrip s =
     rev (strip_front (\<lambda>b a. py_isspace2 a b) (\<lambda>c b a. py_isspace3 a b c) (rev s))"

definition py_strip :: "string \<Rightarrow> string" where
  "py_strip s = py_rstrip (py_lstrip s)"

text \<open>\<open>sep.join(xs)\<close>.\<close>

fun py_join :: "string \<Rightarrow> string list \<Rightarrow> string" where
  "py_join sep [] = []"
| "py_join sep [x] = x"
| "py_join sep (x # y # ys) = x @ sep @ py_join sep (y # ys)"

text \<open>
  The exceptions that occur in the program, by class, each with its message. Every class
  here derives from \<open>Exception\<close>; \<open>APIError\<close> is \<open>openai.APIError\<close>.
  \<open>JSONDecodeError\<close> is a subclass of \<open>ValueError\<close>; the constructor
  \<open>ValueError\<close> stands for a \<open>ValueError\<close> that is not a \<open>JSONDecodeError\<close>.
\<close>

datatype py_exception =
    APIError string
  | JSONDecodeError string
  | TypeError string
  | KeyError string
  | IndexError string
  | AttributeError string
  | ValueError string
  | RecursionError string
  | OtherException string

text \<open>\<open>str(e)\<close>; for a \<open>KeyError\<close> it is the \<open>repr\<close> of the key.\<close>

fun exc_str :: "py_exception \<Rightarrow> string" where
  "exc_str (APIError m) = m"
| "exc_str (JSONDecodeError m) = m"
| "exc_str (TypeError m) = m"
| "exc_str (KeyError k) = [CHR 0x27] @ k @ [CHR 0x27]"
| "exc_str (IndexError m) = m"
| "exc_str (AttributeError m) = m"
| "exc_str (ValueError m) = m"
| "exc_str (RecursionError m) = m"
| "exc_str (OtherException m) = m"

fun is_APIError :: "py_exception \<Rightarrow> bool" where
  "is_APIError (APIError m) = True"
| "is_APIError e = False"

fun is_JSONDecodeError :: "py_exception \<Rightarrow> bool" where
  "is_JSONDecodeError (JSONDecodeError m) = True"
| "is_JSONDecodeError e = False"

fun is_TypeError :: "py_exception \<Rightarrow> bool" where
  "is_TypeError (TypeError m) = True"
| "is_TypeError e = False"

text \<open>A cell of a data frame: a string, or \<open>NaN\<close> where the row has no value.\<close>

datatype cell = Str string | NaN

text \<open>The value \<open>json.loads\<close> returns.\<close>

datatype json =
    JNull
  | JBool bool
  | JNumber string
  | JString string
  | JArray "json list"
  | JObject "(string \<times> json) list"

section \<open>The outside world\<close>

text \<open>
  One request to the completion endpoint, as \<open>call_openai_api\<close> builds it: the model
  name, the content of the system message, the content of the user message, the sampling
  temperature and the token limit.
\<close>

record chat_request =
  model :: string
  system_content :: string
  user_content :: cell
  temperature :: real
  max_tokens :: nat

text \<open>
  What \<open>chat.completions.create\<close> does: it raises, or it returns a response whose
  \<open>choices\<close> each carry a message content that may be \<open>None\<close>.
\<close>

datatype openai_result = Raises py_exception | Response "string option list"

text \<open>
  The completion client. Its answer may depend on the requests made before, so a backend
  that changes its mind between calls is covered.
\<close>

type_synonym openai_client = "chat_request list \<Rightarrow> chat_request \<Rightarrow> openai_result"

type_synonym field_dict = "(string \<times> string) list"

record airtable_record =
  record_id :: string
  record_fields :: field_dict

text \<open>
  The table client. \<open>create\<close> raises or stores the row under an identifier that the
  store chooses; \<open>all\<close> raises or returns the rows of the table. The values of a
  record's fields are strings, and a field that has no value is absent from the record.
\<close>

record airtable_client =
  create_raises :: "airtable_record list \<Rightarrow> field_dict \<Rightarrow> py_exception option"
  assign_id :: "airtable_record list \<Rightarrow> field_dict \<Rightarrow> string"
  all_raises :: "airtable_record list \<Rightarrow> py_exception option"

text \<open>
  What a script run reads from its surroundings: the two module-level clients of
  \<open>services.py\<close> (\<open>None\<close> when the credentials are not configured), the constants of
  \<open>config.py\<close>, the clock and \<open>json.loads\<close> on a string, which returns the
  parsed value or raises: \<open>JSONDecodeError\<close> on a text that is not JSON,
  \<open>RecursionError\<close> on a nesting deeper than the interpreter's recursion limit,
  \<open>ValueError\<close> on an integer with more digits than the interpreter converts.
\<close>

record env =
  openai_client :: "openai_client option"
  OPENAI_MODEL_NAME :: string
  airtable_table :: "airtable_client option"
  ADMIN_PASSWORD :: string
  utcnow_isoformat :: string
  json_loads :: "string \<Rightarrow> py_exception + json"

text \<open>
  What the page writes to the screen. Only the calls that carry a status or data are
  recorded, each with its argument; titles, headers, captions, columns and spinners are
  layout and leave no event.
\<close>

datatype ui_event =
    St_warning string
  | St_error string
  | St_success string
  | St_toast string
  | St_code cell
  | St_download_button string
  | St_markdown string
  | St_json json
  | St_text string
  | St_dataframe "string list" "cell list list"

datatype store_call = Create field_dict | ListAll

text \<open>
  The state a script run works on: the two keys of \<open>st.session_state\<close> that the program
  uses (\<open>None\<close> when the key is absent), the requests sent to the completion endpoint,
  the calls made to the table and the rows it holds, and the screen output.
\<close>

record world =
  session_generated_prompt :: "string option"
  session_logged_in :: "bool option"
  openai_calls :: "chat_request list"
  store_calls :: "store_call list"
  airtable_rows :: "airtable_record list"
  ui :: "ui_event list"

definition emit :: "ui_event \<Rightarrow> world \<Rightarrow> world" where
  "emit ev w = w\<lparr>ui := ui w @ [ev]\<rparr>"

text \<open>
  How a page function ends: it returns, \<open>st.stop()\<close> halts the script, \<open>st.rerun()\<close>
  halts it and asks for a new run, or an exception leaves the function.
\<close>

datatype outcome = Returned | Stopped | Rerun | Raised py_exception

section \<open>services.py\<close>

definition call_openai_api :: "env \<Rightarrow> string \<Rightarrow> cell \<Rightarrow> world \<Rightarrow> string option \<times> world" where
  "call_openai_api e system_prompt user_prompt w =
     (case openai_client e of
        None \<Rightarrow>
          (None, emit (St_error ''OpenAI client is not initialized. Cannot call API.'') w)
      | Some client \<Rightarrow>
          (let request = \<lparr>model = OPENAI_MODEL_NAME e, system_content = system_prompt,
                          user_content = user_prompt, temperature = 7 / 10,
                          max_tokens = 1500\<rparr>;
               w1 = w\<lparr>openai_calls := openai_calls w @ [request]\<rparr>;
               unexpected = (\<lambda>m. (None,
                  emit (St_error (''An unexpected error occurred while calling OpenAI: '' @ m)) w1))
           in case client (openai_calls w) request of
                Raises ex \<Rightarrow>
                  if is_APIError ex
                  then (None, emit (St_error (''An OpenAI API error occurred: '' @ exc_str ex)) w1)
                  else unexpected (exc_str ex)
              | Response choices \<Rightarrow>
                  (case choices of
                     [] \<Rightarrow> unexpected (exc_str (IndexError ''list index out of range''))
                   | None # rest \<Rightarrow>
                       unexpected (exc_str (AttributeError
                         ([CHR 0x27] @ ''NoneType'' @ [CHR 0x27] @ '' object has no attribute ''
                          @ [CHR 0x27] @ ''strip'' @ [CHR 0x27])))
                   | Some content # rest \<Rightarrow> (Some (py_strip content), w1))))"

definition save_to_airtable :: "env \<Rightarrow> field_dict \<Rightarrow> world \<Rightarrow> bool \<times> world" where
  "save_to_airtable e data w =
     (case airtable_table e of
        None \<Rightarrow> (False, emit (St_warning ''Airtable is not configured. Data not saved.'') w)
      | Some table \<Rightarrow>
          (let w1 = w\<lparr>store_calls := store_calls w @ [Create data]\<rparr>
           in case create_raises table (airtable_rows w) data of
                Some ex \<Rightarrow>
                  (False, emit (St_error (''Failed to save data to Airtable: '' @ exc_str ex)) w1)
              | None \<Rightarrow>
                  (True, emit (St_toast ''Prompt saved to Airtable!'')
                     (w1\<lparr>airtable_rows := airtable_rows w @
                          [\<lparr>record_id = assign_id table (airtable_rows w) data,
                            record_fields = data\<rparr>]\<rparr>))))"

definition fetch_from_airtable :: "env \<Rightarrow> world \<Rightarrow> airtable_record list \<times> world" where
  "fetch_from_airtable e w =
     (case airtable_table e of
        None \<Rightarrow> ([], emit (St_warning ''Airtable is not configured. Cannot fetch data.'') w)
      | Some table \<Rightarrow>
          (let w1 = w\<lparr>store_calls := store_calls w @ [ListAll]\<rparr>
           in case all_raises table (airtable_rows w) of
                Some ex \<Rightarrow>
                  ([], emit (St_error (''Failed to fetch data from Airtable: '' @ exc_str ex)) w1)
              | None \<Rightarrow> (airtable_rows w, w1)))"

section \<open>ui_components.py: the prompt generator page\<close>

datatype tone_choice =
  Professional | Casual | Enthusiastic | Formal | Humorous | Neutral | Empathetic

text \<open>The option of the select box that the choice stands for.\<close>

fun tone_label :: "tone_choice \<Rightarrow> string" where
  "tone_label Professional = ''Professional''"
| "tone_label Casual = ''Casual''"
| "tone_label Enthusiastic = ''Enthusiastic''"
| "tone_label Formal = ''Formal''"
| "tone_label Humorous = ''Humorous''"
| "tone_label Neutral = ''Neutral''"
| "tone_label Empathetic = ''Empathetic''"

text \<open>
  What the widgets of the form return in one script run (\<open>context_text\<close> is the variable
  \<open>context\<close>).
\<close>

record form_input =
  goal :: string
  context_text :: string
  output_format :: string
  tone :: tone_choice
  constraints :: string
  submit_button :: bool

definition system_prompt_for_generation :: string where
  "system_prompt_for_generation =
     ''You are an expert in prompt engineering. Your task is to synthesize user-provided components '' @
     ''(goal, context, format, tone, constraints) into a single, comprehensive, and highly effective prompt. '' @
     ''The final prompt should be clear, detailed, and ready to be used with a powerful AI model like GPT-5. '' @
     ''Structure the prompt logically, often starting with the role, followed by the task, context, and clear instructions.''"

definition user_input_summary :: "form_input \<Rightarrow> string" where
  "user_input_summary inp =
     ''**Goal:**\<newline>'' @ goal inp @ ''\<newline>\<newline>'' @
     ''**Context:**\<newline>'' @ context_text inp @ ''\<newline>\<newline>'' @
     ''**Desired Format:**\<newline>'' @ output_format inp @ ''\<newline>\<newline>'' @
     ''**Tone of Voice:**\<newline>'' @ tone_label (tone inp) @ ''\<newline>\<newline>'' @
     ''**Constraints:**\<newline>'' @ constraints inp @ ''\<newline>''"

definition airtable_data :: "env \<Rightarrow> form_input \<Rightarrow> string \<Rightarrow> field_dict" where
  "airtable_data e inp generated_prompt =
     [(''Goal'', goal inp), (''Context'', context_text inp), (''Format'', output_format inp),
      (''Tone'', tone_label (tone inp)), (''Constraints'', constraints inp),
      (''GeneratedPrompt'', generated_prompt), (''Timestamp'', utcnow_isoformat e)]"

text \<open>
  The last block of the page: when the session holds a generated prompt, it is shown in
  a code box and offered for download. The success message starts with U+2705.
\<close>

definition show_generated_prompt :: "world \<Rightarrow> world" where
  "show_generated_prompt w =
     (case session_generated_prompt w of
        None \<Rightarrow> w
      | Some prompt_text \<Rightarrow>
          emit (St_download_button prompt_text)
            (emit (St_code (Str prompt_text))
               (emit (St_success ([CHR 0xE2, CHR 0x9C, CHR 0x85] @
                                   '' Prompt successfully generated!'')) w)))"

definition main_app_page :: "env \<Rightarrow> form_input \<Rightarrow> world \<Rightarrow> outcome \<times> world" where
  "main_app_page e inp w =
     (if submit_button inp then
        (if \<not> py_all [truthy (goal inp), truthy (context_text inp),
                       truthy (output_format inp), truthy (tone_label (tone inp))]
         then (Returned, emit (St_warning
           ''Please fill out all the required fields to generate a high-quality prompt.'') w)
         else
           (case call_openai_api e system_prompt_for_generation
                   (Str (user_input_summary inp)) w of
              (generated_prompt, w1) \<Rightarrow>
                (case generated_prompt of
                   None \<Rightarrow> (Returned, show_generated_prompt w1)
                 | Some gp \<Rightarrow>
                     if truthy gp
                     then (Returned, show_generated_prompt
                            (snd (save_to_airtable e (airtable_data e inp gp)
                                    (w1\<lparr>session_generated_prompt := Some gp\<rparr>))))
                     else (Returned, show_generated_prompt w1))))
      else (Returned, show_generated_prompt w))"

section \<open>ui_components.py: the admin panel\<close>

text \<open>What the widgets of the admin page return in one script run.\<close>

record admin_input =
  password :: string
  login_button :: bool
  selected_index :: nat
  analyze_button :: bool
  batch_button :: bool

text \<open>
  Lines 115 to 126: the gate. The key \<open>logged_in\<close> is created as \<open>False\<close> when absent;
  while it is not true the password is compared when the button was pressed, and the
  script halts.
\<close>

definition init_logged_in :: "world \<Rightarrow> world" where
  "init_logged_in w =
     (if session_logged_in w = None then w\<lparr>session_logged_in := Some False\<rparr> else w)"

definition admin_gate :: "env \<Rightarrow> admin_input \<Rightarrow> world \<Rightarrow> outcome \<times> world" where
  "admin_gate e inp w =
     (if login_button inp then
        (if password inp = ADMIN_PASSWORD e
         then (Rerun, w\<lparr>session_logged_in := Some True\<rparr>)
         else (Stopped, emit (St_error ''Incorrect password.'') w))
      else (Stopped, w))"

text \<open>
  The data frame built from the records: one row per record, a column for every key that
  some record's fields have, and the column \<open>record_id\<close>. A row without a value for a
  column holds \<open>NaN\<close> there. Reading a column that the frame lacks raises \<open>KeyError\<close>.
\<close>

definition df_has_column :: "airtable_record list \<Rightarrow> string \<Rightarrow> bool" where
  "df_has_column records col =
     (col = ''record_id'' \<or> col \<in> set (concat (map (map fst \<circ> record_fields) records)))"

definition df_cell :: "airtable_record \<Rightarrow> string \<Rightarrow> cell" where
  "df_cell r col =
     (if col = ''record_id'' then Str (record_id r)
      else case map_of (record_fields r) col of None \<Rightarrow> NaN | Some v \<Rightarrow> Str v)"

definition display_columns :: "string list" where
  "display_columns = [''Timestamp'', ''Goal'', ''Context'', ''GeneratedPrompt'', ''record_id'']"

definition df_display :: "airtable_record list \<Rightarrow> ui_event" where
  "df_display records =
     (let cols = filter (df_has_column records) display_columns
      in St_dataframe cols (map (\<lambda>r. map (df_cell r) cols) records))"

text \<open>\<open>Series.dropna().tolist()\<close>.\<close>

fun dropna :: "cell list \<Rightarrow> string list" where
  "dropna [] = []"
| "dropna (Str s # cs) = s # dropna cs"
| "dropna (NaN # cs) = dropna cs"

text \<open>
  The select box returns one of its options: the one the user chose, the first one
  until a choice is made.
\<close>

definition selectbox :: "string list \<Rightarrow> nat \<Rightarrow> string" where
  "selectbox options i = (if i < length options then options ! i else options ! 0)"

definition quality_system_prompt :: string where
  "quality_system_prompt = ''You are a prompt quality analysis expert...''"

definition metadata_system_prompt :: string where
  "metadata_system_prompt =
     ''You are a metadata extraction AI... Return the output as a clean JSON object.''"

definition summary_system_prompt :: string where
  "summary_system_prompt = ''You are a strategic analyst... Provide a concise summary...''"

definition batch_system_prompt :: string where
  "batch_system_prompt = ''You are a data analyst specializing in AI prompt trends...''"

text \<open>
  \<open>json.loads\<close> on the value \<open>call_openai_api\<close> returned: \<open>TypeError\<close> on
  \<open>None\<close>, on a string what \<open>json.loads\<close> does with it.
\<close>

definition json_loads_py :: "env \<Rightarrow> string option \<Rightarrow> py_exception + json" where
  "json_loads_py e x =
     (case x of
        None \<Rightarrow> Inl (TypeError ''the JSON object must be str, bytes or bytearray, not NoneType'')
      | Some s \<Rightarrow> json_loads e s)"

text \<open>
  Lines 170 to 173: the parsed metadata is shown; the handler catches \<open>JSONDecodeError\<close>
  and \<open>TypeError\<close> and shows the text instead; any other exception leaves the page.
\<close>

definition show_metadata :: "env \<Rightarrow> string option \<Rightarrow> world \<Rightarrow> outcome \<times> world" where
  "show_metadata e metadata_analysis w =
     (case json_loads_py e metadata_analysis of
        Inr v \<Rightarrow> (Returned, emit (St_json v) w)
      | Inl ex \<Rightarrow>
          if is_JSONDecodeError ex \<or> is_TypeError ex
          then (Returned, emit (St_text (py_or metadata_analysis ''Could not extract metadata.'')) w)
          else (Raised ex, w))"

text \<open>Lines 158 to 179: the three analyses of the selected prompt.\<close>

definition analyze_this_prompt :: "env \<Rightarrow> cell \<Rightarrow> world \<Rightarrow> outcome \<times> world" where
  "analyze_this_prompt e prompt_to_analyze w =
     (case call_openai_api e quality_system_prompt prompt_to_analyze w of
        (quality_analysis, w1) \<Rightarrow>
     (case call_openai_api e metadata_system_prompt prompt_to_analyze
             (emit (St_markdown (py_or quality_analysis ''Could not generate analysis.'')) w1) of
        (metadata_analysis, w2) \<Rightarrow>
     (case show_metadata e metadata_analysis w2 of
        (Returned, w3) \<Rightarrow>
          (case call_openai_api e summary_system_prompt prompt_to_analyze w3 of
             (summary_analysis, w4) \<Rightarrow>
               (Returned,
                emit (St_markdown (py_or summary_analysis ''Could not generate summary.'')) w4))
      | (other, w3) \<Rightarrow> (other, w3))))"

text \<open>Lines 145 to 179: the selection of one record and its analysis.\<close>

definition analyze_single :: "env \<Rightarrow> admin_input \<Rightarrow> airtable_record list \<Rightarrow> world \<Rightarrow> outcome \<times> world" where
  "analyze_single e inp records w =
     (let selected_id = selectbox (map record_id records) (selected_index inp)
      in if truthy selected_id then
           (case filter (\<lambda>r. record_id r = selected_id) records of
              [] \<Rightarrow> (Raised (IndexError ''single positional indexer is out-of-bounds''), w)
            | selected_record # rest \<Rightarrow>
                if \<not> df_has_column records ''GeneratedPrompt''
                then (Raised (KeyError ''GeneratedPrompt''), w)
                else
                  (let prompt_to_analyze = df_cell selected_record ''GeneratedPrompt'';
                       w1 = emit (St_code prompt_to_analyze) w
                   in if analyze_button inp
                      then analyze_this_prompt e prompt_to_analyze w1
                      else (Returned, w1)))
         else (Returned, w))"

text \<open>Lines 181 to 189: the trend analysis over all stored prompts.\<close>

definition batch_separator :: string where
  "batch_separator = ''\<newline>\<newline>---\<newline>\<newline>''"

definition batch_trend_analysis :: "env \<Rightarrow> admin_input \<Rightarrow> airtable_record list \<Rightarrow> world \<Rightarrow> outcome \<times> world" where
  "batch_trend_analysis e inp records w =
     (if batch_button inp then
        (if \<not> df_has_column records ''GeneratedPrompt''
         then (Raised (KeyError ''GeneratedPrompt''), w)
         else
           (let all_prompts = py_join batch_separator
                  (dropna (map (\<lambda>r. df_cell r ''GeneratedPrompt'') records))
            in case call_openai_api e batch_system_prompt (Str all_prompts) w of
                 (batch_analysis, w1) \<Rightarrow>
                   (Returned,
                    emit (St_markdown (py_or batch_analysis ''Could not generate batch analysis.'')) w1)))
      else (Returned, w))"

text \<open>Lines 128 to 189: the panel behind the gate.\<close>

definition admin_panel :: "env \<Rightarrow> admin_input \<Rightarrow> world \<Rightarrow> outcome \<times> world" where
  "admin_panel e inp w =
     (case fetch_from_airtable e (emit (St_success ''Logged in successfully.'') w) of
        (records, w1) \<Rightarrow>
          if records = []
          then (Stopped, emit (St_warning
                  ''No records found in Airtable or service is not configured.'') w1)
          else
            (case analyze_single e inp records (emit (df_display records) w1) of
               (Returned, w2) \<Rightarrow> batch_trend_analysis e inp records w2
             | (other, w2) \<Rightarrow> (other, w2)))"

definition admin_page :: "env \<Rightarrow> admin_input \<Rightarrow> world \<Rightarrow> outcome \<times> world" where
  "admin_page e inp w =
     (let w0 = init_logged_in w
      in if session_logged_in w0 \<noteq> Some True
         then admin_gate e inp w0
         else admin_panel e inp w0)"

section \<open>app.py: navigation\<close>

datatype page = Prompt_Generator | Admin_Panel

record run_input =
  page_selection :: page
  form :: form_input
  admin :: admin_input

definition main :: "env \<Rightarrow> run_input \<Rightarrow> world \<Rightarrow> outcome \<times> world" where
  "main e inp w =
     (case page_selection inp of
        Prompt_Generator \<Rightarrow> main_app_page e (form inp) w
      | Admin_Panel \<Rightarrow> admin_page e (admin inp) w)"

text \<open>
  A session is a sequence of script runs on the same session state, each with the
  surroundings and the widget values of its moment.
\<close>

fun session :: "(env \<times> run_input) list \<Rightarrow> world \<Rightarrow> outcome list \<times> world" where
  "session [] w = ([], w)"
| "session ((e, inp) # runs) w =
     (case main e inp w of
        (out, w1) \<Rightarrow> (case session runs w1 of (outs, w2) \<Rightarrow> (out # outs, w2)))"

section \<open>Concrete surroundings and inputs\<close>

text \<open>
  Clients, tables, states and widget values on which the theorems below are run: a
  completion client that answers with a prompt, one that answers with plain text, one
  that answers with blanks, one that answers with 1000 opening brackets, one that hits a
  rate limit, tables that accept rows and one whose calls fail. The sample
  \<open>json.loads\<close> does on the texts used below what the interpreter does: it parses
  \<open>{}\<close>, runs out of recursion depth on 1000 opening brackets and rejects plain text.
\<close>

definition poet_client :: openai_client where
  "poet_client history request =
     Response [Some ''  You are a poet. Write a haiku about autumn in 3 lines.\<newline>'']"

definition plain_text_client :: openai_client where
  "plain_text_client history request = Response [Some ''not valid json'']"

definition blank_client :: openai_client where
  "blank_client history request = Response [Some ''  \<newline>'']"

definition rate_limited_client :: openai_client where
  "rate_limited_client history request = Raises (APIError ''Rate limit reached'')"

definition table_A :: airtable_client where
  "table_A = \<lparr>create_raises = (\<lambda>rows data. None), assign_id = (\<lambda>rows data. ''recA''),
              all_raises = (\<lambda>rows. None)\<rparr>"

definition table_B :: airtable_client where
  "table_B = \<lparr>create_raises = (\<lambda>rows data. None), assign_id = (\<lambda>rows data. ''recB''),
              all_raises = (\<lambda>rows. None)\<rparr>"

definition broken_table :: airtable_client where
  "broken_table =
     \<lparr>create_raises = (\<lambda>rows data. Some (OtherException ''503 Server Error'')),
      assign_id = (\<lambda>rows data. ''recC''),
      all_raises = (\<lambda>rows. Some (OtherException ''503 Server Error''))\<rparr>"

definition braces_json_loads :: "string \<Rightarrow> py_exception + json" where
  "braces_json_loads s =
     (if s = ''{}'' then Inr (JObject [])
      else if 1000 \<le> length (takeWhile (\<lambda>c. c = CHR ''['') s)
      then Inl (RecursionError
        ''maximum recursion depth exceeded while decoding a JSON array from a unicode string'')
      else Inl (JSONDecodeError ''Expecting value''))"

definition demo_env :: env where
  "demo_env = \<lparr>openai_client = Some poet_client, OPENAI_MODEL_NAME = ''gpt-5'',
                airtable_table = Some table_A, ADMIN_PASSWORD = ''letmein'',
                utcnow_isoformat = ''2025-01-01T12:00:00'', json_loads = braces_json_loads\<rparr>"

definition fresh_world :: world where
  "fresh_world = \<lparr>session_generated_prompt = None, session_logged_in = None,
                   openai_calls = [], store_calls = [], airtable_rows = [], ui = []\<rparr>"

definition haiku_form :: form_input where
  "haiku_form = \<lparr>goal = ''Write a haiku'', context_text = ''about autumn'',
                  output_format = ''3 lines'', tone = Casual, constraints = [],
                  submit_button = True\<rparr>"

definition idle_admin :: admin_input where
  "idle_admin = \<lparr>password = [], login_button = False, selected_index = 0,
                  analyze_button = False, batch_button = False\<rparr>"

definition stored_haiku :: airtable_record where
  "stored_haiku = \<lparr>record_id = ''recHAIKU00000001'',
                    record_fields = [(''Goal'', ''Write a haiku''),
                                     (''GeneratedPrompt'', ''You are a poet.'')]\<rparr>"

definition logged_in_world :: world where
  "logged_in_world =
     fresh_world\<lparr>session_logged_in := Some True, airtable_rows := [stored_haiku]\<rparr>"

definition prompt_run :: run_input where
  "prompt_run = \<lparr>page_selection = Prompt_Generator, form = haiku_form, admin = idle_admin\<rparr>"

definition wrong_login_run :: run_input where
  "wrong_login_run =
     \<lparr>page_selection = Admin_Panel, form = haiku_form,
      admin = idle_admin\<lparr>password := ''guess'', login_button := True\<rparr>\<rparr>"

definition right_login_run :: run_input where
  "right_login_run =
     \<lparr>page_selection = Admin_Panel, form = haiku_form,
      admin = idle_admin\<lparr>password := ''letmein'', login_button := True\<rparr>\<rparr>"

definition unconfigured_env :: env where
  "unconfigured_env = demo_env\<lparr>openai_client := None, airtable_table := None\<rparr>"

definition rate_limited_env :: env where
  "rate_limited_env = demo_env\<lparr>openai_client := Some rate_limited_client\<rparr>"

definition blank_goal_form :: form_input where
  "blank_goal_form = haiku_form\<lparr>goal := ''   ''\<rparr>"

definition no_goal_form :: form_input where
  "no_goal_form = haiku_form\<lparr>goal := []\<rparr>"

definition no_context_form :: form_input where
  "no_context_form = haiku_form\<lparr>context_text := []\<rparr>"

definition broken_store_env :: env where
  "broken_store_env = demo_env\<lparr>airtable_table := Some broken_table\<rparr>"

definition blank_answer_env :: env where
  "blank_answer_env = demo_env\<lparr>openai_client := Some blank_client\<rparr>"

definition table_B_env :: env where
  "table_B_env = demo_env\<lparr>airtable_table := Some table_B\<rparr>"

definition batch_admin :: admin_input where
  "batch_admin = idle_admin\<lparr>batch_button := True\<rparr>"

definition no_prompt_row :: airtable_record where
  "no_prompt_row = \<lparr>record_id = ''recMANUAL0000003'',
                     record_fields = [(''Goal'', ''Typed into the table by hand'')]\<rparr>"

definition logged_in_empty_world :: world where
  "logged_in_empty_world = fresh_world\<lparr>session_logged_in := Some True\<rparr>"

definition stored_summary :: airtable_record where
  "stored_summary = \<lparr>record_id = ''recSUMMARY000004'',
                      record_fields = [(''Goal'', ''Summarise a paper''),
                                       (''GeneratedPrompt'', ''You are an editor.'')]\<rparr>"

definition three_rows_world :: world where
  "three_rows_world =
     logged_in_empty_world\<lparr>airtable_rows := [stored_haiku, no_prompt_row, stored_summary]\<rparr>"

definition manual_row_world :: world where
  "manual_row_world = logged_in_empty_world\<lparr>airtable_rows := [no_prompt_row]\<rparr>"

definition plain_text_env :: env where
  "plain_text_env = demo_env\<lparr>openai_client := Some plain_text_client\<rparr>"

definition deep_brackets :: string where
  "deep_brackets = replicate 1000 CHR ''[''"

definition bracket_client :: openai_client where
  "bracket_client history request = Response [Some deep_brackets]"

definition bracket_env :: env where
  "bracket_env = demo_env\<lparr>openai_client := Some bracket_client\<rparr>"

definition analyze_admin :: admin_input where
  "analyze_admin = idle_admin\<lparr>analyze_button := True\<rparr>"

section \<open>What each operation leaves alone\<close>

lemmas strip_defs =
  py_strip_def py_rstrip_def py_lstrip_def py_isspace_def py_isspace2_def py_isspace3_def

lemma emit_simps:
  "session_generated_prompt (emit ev w) = session_generated_prompt w"
  "session_logged_in (emit ev w) = session_logged_in w"
  "openai_calls (emit ev w) = openai_calls w"
  "store_calls (emit ev w) = store_calls w"
  "airtable_rows (emit ev w) = airtable_rows w"
  "ui (emit ev w) = ui w @ [ev]"
  by (simp_all add: emit_def)

lemma call_openai_api_frame:
  "session_generated_prompt (snd (call_openai_api e sp up w)) = session_generated_prompt w"
  "session_logged_in (snd (call_openai_api e sp up w)) = session_logged_in w"
  "store_calls (snd (call_openai_api e sp up w)) = store_calls w"
  "airtable_rows (snd (call_openai_api e sp up w)) = airtable_rows w"
  by (simp_all add: call_openai_api_def emit_simps Let_def
      split: option.splits openai_result.splits list.splits)

lemma save_to_airtable_frame:
  "session_generated_prompt (snd (save_to_airtable e d w)) = session_generated_prompt w"
  "session_logged_in (snd (save_to_airtable e d w)) = session_logged_in w"
  "openai_calls (snd (save_to_airtable e d w)) = openai_calls w"
  by (simp_all add: save_to_airtable_def emit_simps Let_def split: option.splits)

lemma fetch_from_airtable_frame:
  "session_generated_prompt (snd (fetch_from_airtable e w)) = session_generated_prompt w"
  "session_logged_in (snd (fetch_from_airtable e w)) = session_logged_in w"
  "openai_calls (snd (fetch_from_airtable e w)) = openai_calls w"
  "airtable_rows (snd (fetch_from_airtable e w)) = airtable_rows w"
  by (simp_all add: fetch_from_airtable_def emit_simps Let_def split: option.splits)

lemma show_generated_prompt_frame:
  "session_generated_prompt (show_generated_prompt w) = session_generated_prompt w"
  "session_logged_in (show_generated_prompt w) = session_logged_in w"
  "openai_calls (show_generated_prompt w) = openai_calls w"
  "store_calls (show_generated_prompt w) = store_calls w"
  "airtable_rows (show_generated_prompt w) = airtable_rows w"
  by (simp_all add: show_generated_prompt_def emit_simps split: option.splits)

lemma main_app_page_logged_in:
  "session_logged_in (snd (main_app_page e inp w)) = session_logged_in w"
  by (simp add: main_app_page_def emit_simps show_generated_prompt_frame
      call_openai_api_frame save_to_airtable_frame case_prod_beta
      split: option.splits)

lemma show_metadata_frame:
  "session_logged_in (snd (show_metadata e m w)) = session_logged_in w"
  "airtable_rows (snd (show_metadata e m w)) = airtable_rows w"
  "store_calls (snd (show_metadata e m w)) = store_calls w"
  "openai_calls (snd (show_metadata e m w)) = openai_calls w"
  by (simp_all add: show_metadata_def emit_simps split: sum.splits)

lemma analyze_this_prompt_frame:
  "session_logged_in (snd (analyze_this_prompt e p w)) = session_logged_in w"
  "airtable_rows (snd (analyze_this_prompt e p w)) = airtable_rows w"
  "store_calls (snd (analyze_this_prompt e p w)) = store_calls w"
  by (simp_all add: analyze_this_prompt_def emit_simps call_openai_api_frame
      show_metadata_frame case_prod_beta split: outcome.splits)

lemma analyze_single_frame:
  "session_logged_in (snd (analyze_single e inp rs w)) = session_logged_in w"
  "airtable_rows (snd (analyze_single e inp rs w)) = airtable_rows w"
  "store_calls (snd (analyze_single e inp rs w)) = store_calls w"
  by (simp_all add: analyze_single_def emit_simps analyze_this_prompt_frame Let_def
      split: list.splits)

lemma batch_trend_analysis_frame:
  "session_logged_in (snd (batch_trend_analysis e inp rs w)) = session_logged_in w"
  "airtable_rows (snd (batch_trend_analysis e inp rs w)) = airtable_rows w"
  "store_calls (snd (batch_trend_analysis e inp rs w)) = store_calls w"
  by (simp_all add: batch_trend_analysis_def emit_simps call_openai_api_frame Let_def
      case_prod_beta)

lemma admin_panel_frame:
  "session_logged_in (snd (admin_panel e inp w)) = session_logged_in w"
  "airtable_rows (snd (admin_panel e inp w)) = airtable_rows w"
  by (simp_all add: admin_panel_def emit_simps fetch_from_airtable_frame
      analyze_single_frame batch_trend_analysis_frame case_prod_beta
      split: outcome.splits)

lemma admin_page_logged_in_kept:
  "session_logged_in w = Some True \<Longrightarrow> session_logged_in (snd (admin_page e inp w)) = Some True"
  by (simp add: admin_page_def init_logged_in_def admin_panel_frame)

lemma main_logged_in_kept:
  "session_logged_in w = Some True \<Longrightarrow> session_logged_in (snd (main e inp w)) = Some True"
  by (simp add: main_def main_app_page_logged_in admin_page_logged_in_kept split: page.splits)

lemma session_logged_in_kept:
  "session_logged_in w = Some True \<Longrightarrow> session_logged_in (snd (session runs w)) = Some True"
proof (induction runs arbitrary: w)
  case Nil
  then show ?case by simp
next
  case (Cons run runs)
  obtain e inp where run: "run = (e, inp)" by (cases run)
  have "session_logged_in (snd (main e inp w)) = Some True"
    using Cons.prems by (rule main_logged_in_kept)
  then have "session_logged_in (snd (session runs (snd (main e inp w)))) = Some True"
    by (rule Cons.IH)
  then show ?case by (simp add: run case_prod_beta)
qed

section \<open>What each operation adds to the screen\<close>

lemma call_openai_api_ui: "\<exists>evs. ui (snd (call_openai_api e sp up w)) = ui w @ evs"
  by (simp add: call_openai_api_def emit_simps Let_def
      split: option.splits openai_result.splits list.splits)

lemma fetch_from_airtable_ui: "\<exists>evs. ui (snd (fetch_from_airtable e w)) = ui w @ evs"
  by (simp add: fetch_from_airtable_def emit_simps Let_def split: option.splits)

lemma show_metadata_ui: "\<exists>evs. ui (snd (show_metadata e m w)) = ui w @ evs"
  by (simp add: show_metadata_def emit_simps split: sum.splits)

lemma analyze_this_prompt_ui: "\<exists>evs. ui (snd (analyze_this_prompt e p w)) = ui w @ evs"
proof -
  let ?c1 = "call_openai_api e quality_system_prompt p w"
  let ?w1 = "emit (St_markdown (py_or (fst ?c1) ''Could not generate analysis.'')) (snd ?c1)"
  let ?c2 = "call_openai_api e metadata_system_prompt p ?w1"
  let ?m = "show_metadata e (fst ?c2) (snd ?c2)"
  let ?c3 = "call_openai_api e summary_system_prompt p (snd ?m)"
  obtain a where a: "ui (snd ?c1) = ui w @ a" using call_openai_api_ui by blast
  obtain b where b: "ui (snd ?c2) = ui ?w1 @ b" using call_openai_api_ui by blast
  obtain c where c: "ui (snd ?m) = ui (snd ?c2) @ c" using show_metadata_ui by blast
  obtain d where d: "ui (snd ?c3) = ui (snd ?m) @ d" using call_openai_api_ui by blast
  show ?thesis
    by (simp add: analyze_this_prompt_def case_prod_beta emit_simps a b c d split: outcome.splits)
qed

lemma analyze_single_ui: "\<exists>evs. ui (snd (analyze_single e inp rs w)) = ui w @ evs"
proof -
  have "\<exists>evs. ui (snd (analyze_this_prompt e p (emit ev w))) = ui w @ evs" for p ev
    using analyze_this_prompt_ui [of e p "emit ev w"] by (auto simp: emit_simps)
  then show ?thesis
    by (simp add: analyze_single_def Let_def emit_simps split: list.splits)
qed

lemma batch_trend_analysis_ui: "\<exists>evs. ui (snd (batch_trend_analysis e inp rs w)) = ui w @ evs"
proof -
  have "\<exists>evs. ui (snd (call_openai_api e sp up w)) @ [ev] = ui w @ evs" for sp up ev
    using call_openai_api_ui [of e sp up w] by auto
  then show ?thesis
    by (simp add: batch_trend_analysis_def Let_def emit_simps case_prod_beta)
qed

lemma admin_panel_ui:
  "\<exists>evs. ui (snd (admin_panel e inp w)) = ui w @ St_success ''Logged in successfully.'' # evs"
proof -
  let ?w0 = "emit (St_success ''Logged in successfully.'') w"
  let ?f = "fetch_from_airtable e ?w0"
  let ?w1 = "emit (df_display (fst ?f)) (snd ?f)"
  let ?a = "analyze_single e inp (fst ?f) ?w1"
  let ?b = "batch_trend_analysis e inp (fst ?f) (snd ?a)"
  obtain x where x: "ui (snd ?f) = ui ?w0 @ x" using fetch_from_airtable_ui by blast
  obtain y where y: "ui (snd ?a) = ui ?w1 @ y" using analyze_single_ui by blast
  obtain z where z: "ui (snd ?b) = ui (snd ?a) @ z" using batch_trend_analysis_ui by blast
  show ?thesis
    by (simp add: admin_panel_def case_prod_beta emit_simps x y z split: outcome.splits)
qed

section \<open>The login flag\<close>

text \<open>
  C10. Once \<open>st.session_state.logged_in\<close> is \<open>True\<close>, no script run changes it: it is
  still \<open>True\<close> after any sequence of runs of either page, whatever the widgets return
  and however the run ends. There is no logout. Every later run of the admin page skips
  the gate, runs the panel and starts its output with the login confirmation.
\<close>

theorem logged_in_is_never_reset:
  assumes "session_logged_in w = Some True"
  shows "session_logged_in (snd (session runs w)) = Some True
       \<and> session_logged_in (snd (main e inp w)) = Some True
       \<and> session_logged_in (snd (main_app_page e finp w)) = Some True
       \<and> session_logged_in (snd (admin_page e ainp w)) = Some True
       \<and> admin_page e ainp w = admin_panel e ainp w
       \<and> (\<exists>evs. ui (snd (admin_page e ainp w)) =
                  ui w @ St_success ''Logged in successfully.'' # evs)"
proof -
  have same: "admin_page e ainp w = admin_panel e ainp w"
    using assms by (simp add: admin_page_def init_logged_in_def)
  show ?thesis
    using assms same admin_panel_ui [of e ainp w]
    by (simp add: session_logged_in_kept main_logged_in_kept main_app_page_logged_in
        admin_panel_frame)
qed

theorem logged_in_is_never_reset_witness:
  "session_logged_in logged_in_world = Some True
   \<and> session_logged_in
        (snd (session [(demo_env, prompt_run), (demo_env, wrong_login_run)] logged_in_world))
       = Some True
   \<and> session_logged_in (snd (main demo_env wrong_login_run logged_in_world)) = Some True
   \<and> admin_page demo_env (admin wrong_login_run) logged_in_world =
       admin_panel demo_env (admin wrong_login_run) logged_in_world"
proof -
  have h: "session_logged_in logged_in_world = Some True"
    by (simp add: logged_in_world_def fresh_world_def)
  show ?thesis
    using h logged_in_is_never_reset
      [OF h, where runs = "[(demo_env, prompt_run), (demo_env, wrong_login_run)]"
         and e = demo_env and inp = wrong_login_run and ainp = "admin wrong_login_run"]
    by blast
qed

section \<open>The admin gate\<close>

lemma admin_page_at_gate:
  assumes "session_logged_in w \<noteq> Some True"
  shows "admin_page e inp w = admin_gate e inp (init_logged_in w)"
    and "session_logged_in (init_logged_in w) = Some False"
  using assms by (auto simp: admin_page_def init_logged_in_def Let_def)

lemma wrong_login_stops:
  assumes "session_logged_in w \<noteq> Some True"
    and "login_button inp" and "password inp \<noteq> ADMIN_PASSWORD e"
  shows "admin_page e inp w = (Stopped, emit (St_error ''Incorrect password.'') (init_logged_in w))"
  using assms by (simp add: admin_page_at_gate admin_gate_def)

lemma init_logged_in_frame:
  "ui (init_logged_in w) = ui w"
  "openai_calls (init_logged_in w) = openai_calls w"
  "store_calls (init_logged_in w) = store_calls w"
  "airtable_rows (init_logged_in w) = airtable_rows w"
  "session_generated_prompt (init_logged_in w) = session_generated_prompt w"
  by (simp_all add: init_logged_in_def)

lemma wrong_logins_never_crash:
  assumes "session_logged_in w \<noteq> Some True"
    and "list_all (\<lambda>(e, r). page_selection r = Admin_Panel \<and> login_button (admin r)
                     \<and> password (admin r) \<noteq> ADMIN_PASSWORD e) runs"
  shows "fst (session runs w) = replicate (length runs) Stopped
       \<and> session_logged_in (snd (session runs w)) \<noteq> Some True
       \<and> ui (snd (session runs w)) =
           ui w @ replicate (length runs) (St_error ''Incorrect password.'')"
  using assms
proof (induction runs arbitrary: w)
  case Nil
  then show ?case by simp
next
  case (Cons run runs)
  obtain e r where run: "run = (e, r)" by (cases run)
  let ?w1 = "emit (St_error ''Incorrect password.'') (init_logged_in w)"
  from Cons.prems run
  have r: "page_selection r = Admin_Panel" "login_button (admin r)"
    "password (admin r) \<noteq> ADMIN_PASSWORD e"
    and rest: "list_all (\<lambda>(e, r). page_selection r = Admin_Panel \<and> login_button (admin r)
                     \<and> password (admin r) \<noteq> ADMIN_PASSWORD e) runs"
    by simp_all
  have step: "main e r w = (Stopped, ?w1)"
    using r Cons.prems(1) by (simp add: main_def wrong_login_stops)
  have flag: "session_logged_in ?w1 \<noteq> Some True"
    using Cons.prems(1) by (simp add: emit_simps admin_page_at_gate(2))
  have ui1: "ui ?w1 = ui w @ [St_error ''Incorrect password.'']"
    by (simp add: emit_simps init_logged_in_frame)
  from Cons.IH [OF flag rest] show ?case
    by (simp add: run step ui1 case_prod_beta replicate_append_same)
qed

text \<open>
  C9. At the admin gate, while the session is not authenticated: a press of the login
  button with the input equal to the shared secret sets the flag (and asks for a new
  run); with an unequal input the flag stays \<open>False\<close> and the error
  \<open>Incorrect password.\<close> is shown; any number of wrong attempts in a row each end
  with \<open>st.stop()\<close>, none with an exception; and every run of the admin page in this
  state halts (stop or rerun) without fetching records or calling the completion
  endpoint, showing nothing but possibly that error.
\<close>

theorem admin_gate_checks_the_secret:
  assumes "session_logged_in w \<noteq> Some True"
  shows "(login_button inp \<and> password inp = ADMIN_PASSWORD e \<longrightarrow>
            fst (admin_page e inp w) = Rerun
          \<and> session_logged_in (snd (admin_page e inp w)) = Some True)
       \<and> (login_button inp \<and> password inp \<noteq> ADMIN_PASSWORD e \<longrightarrow>
            fst (admin_page e inp w) = Stopped
          \<and> session_logged_in (snd (admin_page e inp w)) = Some False
          \<and> ui (snd (admin_page e inp w)) = ui w @ [St_error ''Incorrect password.''])
       \<and> (list_all (\<lambda>(e, r). page_selection r = Admin_Panel \<and> login_button (admin r)
                      \<and> password (admin r) \<noteq> ADMIN_PASSWORD e) runs \<longrightarrow>
            fst (session runs w) = replicate (length runs) Stopped
          \<and> session_logged_in (snd (session runs w)) \<noteq> Some True
          \<and> ui (snd (session runs w)) =
              ui w @ replicate (length runs) (St_error ''Incorrect password.''))
       \<and> (fst (admin_page e inp w) = Stopped \<or> fst (admin_page e inp w) = Rerun)
       \<and> openai_calls (snd (admin_page e inp w)) = openai_calls w
       \<and> store_calls (snd (admin_page e inp w)) = store_calls w
       \<and> (ui (snd (admin_page e inp w)) = ui w
          \<or> ui (snd (admin_page e inp w)) = ui w @ [St_error ''Incorrect password.''])"
proof -
  note gate = admin_page_at_gate [OF assms]
  have a: "login_button inp \<and> password inp = ADMIN_PASSWORD e \<longrightarrow>
            fst (admin_page e inp w) = Rerun
          \<and> session_logged_in (snd (admin_page e inp w)) = Some True"
    by (simp add: gate admin_gate_def)
  have b: "login_button inp \<and> password inp \<noteq> ADMIN_PASSWORD e \<longrightarrow>
            fst (admin_page e inp w) = Stopped
          \<and> session_logged_in (snd (admin_page e inp w)) = Some False
          \<and> ui (snd (admin_page e inp w)) = ui w @ [St_error ''Incorrect password.'']"
    by (simp add: gate admin_gate_def emit_simps init_logged_in_frame)
  have c: "list_all (\<lambda>(e, r). page_selection r = Admin_Panel \<and> login_button (admin r)
                      \<and> password (admin r) \<noteq> ADMIN_PASSWORD e) runs \<longrightarrow>
            fst (session runs w) = replicate (length runs) Stopped
          \<and> session_logged_in (snd (session runs w)) \<noteq> Some True
          \<and> ui (snd (session runs w)) =
              ui w @ replicate (length runs) (St_error ''Incorrect password.'')"
    using wrong_logins_never_crash [OF assms] by blast
  have d: "(fst (admin_page e inp w) = Stopped \<or> fst (admin_page e inp w) = Rerun)
       \<and> openai_calls (snd (admin_page e inp w)) = openai_calls w
       \<and> store_calls (snd (admin_page e inp w)) = store_calls w
       \<and> (ui (snd (admin_page e inp w)) = ui w
          \<or> ui (snd (admin_page e inp w)) = ui w @ [St_error ''Incorrect password.''])"
    by (simp add: gate admin_gate_def emit_simps init_logged_in_frame)
  from a b c d show ?thesis by blast
qed

theorem admin_gate_checks_the_secret_witness:
  "session_logged_in fresh_world \<noteq> Some True
   \<and> fst (admin_page demo_env (admin right_login_run) fresh_world) = Rerun
   \<and> session_logged_in (snd (admin_page demo_env (admin right_login_run) fresh_world)) = Some True
   \<and> fst (admin_page demo_env (admin wrong_login_run) fresh_world) = Stopped
   \<and> session_logged_in (snd (admin_page demo_env (admin wrong_login_run) fresh_world)) = Some False
   \<and> fst (session [(demo_env, wrong_login_run), (demo_env, wrong_login_run)] fresh_world)
       = [Stopped, Stopped]
   \<and> ui (snd (session [(demo_env, wrong_login_run), (demo_env, wrong_login_run)] fresh_world))
       = [St_error ''Incorrect password.'', St_error ''Incorrect password.'']
   \<and> store_calls (snd (admin_page demo_env (admin wrong_login_run) fresh_world)) = []"
proof -
  have h: "session_logged_in fresh_world \<noteq> Some True"
    by (simp add: fresh_world_def)
  have right: "login_button (admin right_login_run)
      \<and> password (admin right_login_run) = ADMIN_PASSWORD demo_env"
    by (simp add: right_login_run_def idle_admin_def demo_env_def)
  have wrong: "login_button (admin wrong_login_run)
      \<and> password (admin wrong_login_run) \<noteq> ADMIN_PASSWORD demo_env"
    by (simp add: wrong_login_run_def idle_admin_def demo_env_def)
  have runs: "list_all (\<lambda>(e, r). page_selection r = Admin_Panel \<and> login_button (admin r)
                      \<and> password (admin r) \<noteq> ADMIN_PASSWORD e)
                [(demo_env, wrong_login_run), (demo_env, wrong_login_run)]"
    by (simp add: wrong_login_run_def idle_admin_def demo_env_def)
  have empty: "ui fresh_world = []" "store_calls fresh_world = []"
    by (simp_all add: fresh_world_def)
  show ?thesis
    using h right wrong runs empty
      admin_gate_checks_the_secret [OF h, where e = demo_env and inp = "admin right_login_run"
         and runs = "[(demo_env, wrong_login_run), (demo_env, wrong_login_run)]"]
      admin_gate_checks_the_secret [OF h, where e = demo_env and inp = "admin wrong_login_run"
         and runs = "[(demo_env, wrong_login_run), (demo_env, wrong_login_run)]"]
    by (simp add: numeral_2_eq_2)
qed

section \<open>The completion call\<close>

lemma py_strip_poet:
  "py_strip ''  You are a poet. Write a haiku about autumn in 3 lines.\<newline>'' =
   ''You are a poet. Write a haiku about autumn in 3 lines.''"
  by (simp add: strip_defs)

lemma call_openai_api_unconfigured:
  "openai_client e = None \<Longrightarrow>
   call_openai_api e sp up w =
     (None, emit (St_error ''OpenAI client is not initialized. Cannot call API.'') w)"
  by (simp add: call_openai_api_def)

lemma call_openai_api_one_request:
  "openai_client e = Some client \<Longrightarrow>
   openai_calls (snd (call_openai_api e sp up w)) =
     openai_calls w @ [\<lparr>model = OPENAI_MODEL_NAME e, system_content = sp, user_content = up,
                          temperature = 7 / 10, max_tokens = 1500\<rparr>]"
  by (simp add: call_openai_api_def emit_simps Let_def
      split: openai_result.splits list.splits option.splits)

lemma call_openai_api_fault:
  assumes "openai_client e = Some client"
    and "\<forall>content rest. client (openai_calls w)
            \<lparr>model = OPENAI_MODEL_NAME e, system_content = sp, user_content = up,
             temperature = 7 / 10, max_tokens = 1500\<rparr> \<noteq> Response (Some content # rest)"
  shows "fst (call_openai_api e sp up w) = None"
    and "\<exists>msg. ui (snd (call_openai_api e sp up w)) = ui w @ [St_error msg]"
  using assms
  by (auto simp: call_openai_api_def emit_simps Let_def
      split: openai_result.splits list.splits option.splits)

lemma call_openai_api_raises:
  assumes "openai_client e = Some client"
    and "client (openai_calls w)
            \<lparr>model = OPENAI_MODEL_NAME e, system_content = sp, user_content = up,
             temperature = 7 / 10, max_tokens = 1500\<rparr> = Raises ex"
  shows "ui (snd (call_openai_api e sp up w)) =
           ui w @ [St_error ((if is_APIError ex then ''An OpenAI API error occurred: ''
                              else ''An unexpected error occurred while calling OpenAI: '')
                             @ exc_str ex)]"
  using assms by (simp add: call_openai_api_def emit_simps Let_def)

text \<open>
  C5. \<open>call_openai_api\<close> with no client configured returns \<open>None\<close>, shows the error
  \<open>OpenAI client is not initialized. Cannot call API.\<close> and sends no request. With a
  client whose call fails (it raises, or its response has no choice or no content), the
  function returns \<open>None\<close>, shows one error message and has sent exactly one request:
  nothing is raised to the caller and nothing is retried. A raised exception is
  reported with its text, under the heading for \<open>openai.APIError\<close> or the one for any
  other exception.
\<close>

theorem call_openai_api_failures_are_terminal:
  "(openai_client e = None \<longrightarrow>
      call_openai_api e sp up w =
        (None, emit (St_error ''OpenAI client is not initialized. Cannot call API.'') w)
    \<and> openai_calls (snd (call_openai_api e sp up w)) = openai_calls w)
 \<and> (openai_client e = Some client
      \<and> (\<forall>content rest. client (openai_calls w)
            \<lparr>model = OPENAI_MODEL_NAME e, system_content = sp, user_content = up,
             temperature = 7 / 10, max_tokens = 1500\<rparr> \<noteq> Response (Some content # rest)) \<longrightarrow>
      fst (call_openai_api e sp up w) = None
    \<and> (\<exists>msg. ui (snd (call_openai_api e sp up w)) = ui w @ [St_error msg])
    \<and> openai_calls (snd (call_openai_api e sp up w)) =
        openai_calls w @ [\<lparr>model = OPENAI_MODEL_NAME e, system_content = sp, user_content = up,
                             temperature = 7 / 10, max_tokens = 1500\<rparr>])
 \<and> (openai_client e = Some client
      \<and> client (openai_calls w)
            \<lparr>model = OPENAI_MODEL_NAME e, system_content = sp, user_content = up,
             temperature = 7 / 10, max_tokens = 1500\<rparr> = Raises ex \<longrightarrow>
      ui (snd (call_openai_api e sp up w)) =
        ui w @ [St_error ((if is_APIError ex then ''An OpenAI API error occurred: ''
                           else ''An unexpected error occurred while calling OpenAI: '')
                          @ exc_str ex)])"
  using call_openai_api_unconfigured [of e sp up w]
    call_openai_api_one_request [of e client sp up w]
    call_openai_api_fault [of e client w sp up]
    call_openai_api_raises [of e client w sp up ex]
  by (simp add: emit_simps)

theorem call_openai_api_failures_are_terminal_witness:
  "openai_client unconfigured_env = None
   \<and> call_openai_api unconfigured_env ''s'' (Str ''u'') fresh_world =
       (None, emit (St_error ''OpenAI client is not initialized. Cannot call API.'') fresh_world)
   \<and> openai_calls (snd (call_openai_api unconfigured_env ''s'' (Str ''u'') fresh_world)) = []
   \<and> openai_client rate_limited_env = Some rate_limited_client
   \<and> fst (call_openai_api rate_limited_env ''s'' (Str ''u'') fresh_world) = None
   \<and> length (openai_calls (snd (call_openai_api rate_limited_env ''s'' (Str ''u'') fresh_world))) = 1
   \<and> ui (snd (call_openai_api rate_limited_env ''s'' (Str ''u'') fresh_world)) =
       [St_error ''An OpenAI API error occurred: Rate limit reached'']"
proof -
  have a: "openai_client unconfigured_env = None"
    by (simp add: unconfigured_env_def demo_env_def)
  have b: "openai_client rate_limited_env = Some rate_limited_client"
    by (simp add: rate_limited_env_def demo_env_def)
  have c: "rate_limited_client h r = Raises (APIError ''Rate limit reached'')" for h r
    by (simp add: rate_limited_client_def)
  have d: "openai_calls fresh_world = []" "ui fresh_world = []"
    by (simp_all add: fresh_world_def)
  show ?thesis
    using a b c d
      call_openai_api_failures_are_terminal
        [of unconfigured_env "''s''" "Str ''u''" fresh_world rate_limited_client
            "APIError ''Rate limit reached''"]
      call_openai_api_failures_are_terminal
        [of rate_limited_env "''s''" "Str ''u''" fresh_world rate_limited_client
            "APIError ''Rate limit reached''"]
    by (simp add: emit_simps)
qed

section \<open>The prompt generator page\<close>

lemma tone_label_nonempty: "tone_label t \<noteq> []"
  by (cases t) simp_all

lemma main_app_page_saved:
  assumes "submit_button inp" "goal inp \<noteq> []" "context_text inp \<noteq> []"
    "output_format inp \<noteq> []"
    and "call_openai_api e system_prompt_for_generation (Str (user_input_summary inp)) w
           = (Some gp, w1)"
    and "gp \<noteq> []"
  shows "main_app_page e inp w =
           (Returned, show_generated_prompt
              (snd (save_to_airtable e (airtable_data e inp gp)
                      (w1\<lparr>session_generated_prompt := Some gp\<rparr>))))"
  using assms by (simp add: main_app_page_def py_all_def truthy_def tone_label_nonempty)

lemma main_app_page_not_saved:
  assumes "submit_button inp" "goal inp \<noteq> []" "context_text inp \<noteq> []"
    "output_format inp \<noteq> []"
    and "fst (call_openai_api e system_prompt_for_generation (Str (user_input_summary inp)) w)
           = None
       \<or> fst (call_openai_api e system_prompt_for_generation (Str (user_input_summary inp)) w)
           = Some []"
  shows "main_app_page e inp w =
           (Returned, show_generated_prompt
              (snd (call_openai_api e system_prompt_for_generation
                      (Str (user_input_summary inp)) w)))"
  using assms
  by (auto simp: main_app_page_def py_all_def truthy_def tone_label_nonempty case_prod_beta
      split: option.splits)

text \<open>
  C1, as the code has it. When the form is submitted and \<open>goal\<close>, \<open>context\<close> or
  \<open>format\<close> is the empty string (nothing is trimmed; the tone always has one of its
  seven labels), the page shows the one fixed warning, which names no field, and returns:
  no request goes to the completion endpoint, no call to the table, no row is written.
\<close>

theorem empty_required_field_warns_without_calls:
  assumes "submit_button inp"
    and "goal inp = [] \<or> context_text inp = [] \<or> output_format inp = []"
  shows "main_app_page e inp w =
           (Returned, w\<lparr>ui := ui w @ [St_warning
              ''Please fill out all the required fields to generate a high-quality prompt.'']\<rparr>)
       \<and> openai_calls (snd (main_app_page e inp w)) = openai_calls w
       \<and> store_calls (snd (main_app_page e inp w)) = store_calls w
       \<and> airtable_rows (snd (main_app_page e inp w)) = airtable_rows w
       \<and> tone_label (tone inp) \<noteq> []"
  using assms
  by (auto simp: main_app_page_def py_all_def truthy_def emit_def tone_label_nonempty)

theorem empty_required_field_warns_without_calls_witness:
  "submit_button no_context_form
   \<and> (goal no_context_form = [] \<or> context_text no_context_form = []
       \<or> output_format no_context_form = [])
   \<and> main_app_page demo_env no_context_form fresh_world =
       (Returned, fresh_world\<lparr>ui := [St_warning
          ''Please fill out all the required fields to generate a high-quality prompt.'']\<rparr>)
   \<and> openai_calls (snd (main_app_page demo_env no_context_form fresh_world)) = []
   \<and> store_calls (snd (main_app_page demo_env no_context_form fresh_world)) = []"
proof -
  have a: "submit_button no_context_form"
    by (simp add: no_context_form_def haiku_form_def)
  have b: "goal no_context_form = [] \<or> context_text no_context_form = []
       \<or> output_format no_context_form = []"
    by (simp add: no_context_form_def haiku_form_def)
  have c: "ui fresh_world = []" "openai_calls fresh_world = []" "store_calls fresh_world = []"
    by (simp_all add: fresh_world_def)
  show ?thesis
    using a b c empty_required_field_warns_without_calls [OF a b, of demo_env fresh_world]
    by simp
qed

lemma haiku_generated:
  "call_openai_api demo_env sp up fresh_world =
     (Some ''You are a poet. Write a haiku about autumn in 3 lines.'',
      fresh_world\<lparr>openai_calls := [\<lparr>model = ''gpt-5'', system_content = sp, user_content = up,
                                        temperature = 7 / 10, max_tokens = 1500\<rparr>]\<rparr>)"
  by (simp add: call_openai_api_def demo_env_def poet_client_def fresh_world_def Let_def
      strip_defs)

text \<open>
  C1 as stated fails. A goal of three spaces is empty after trimming, yet the submission
  passes the check: one request is sent to the completion endpoint and one \<open>create\<close> to
  the table. And the warning does not tell which field is missing: an empty goal and an
  empty context give the same screen.
\<close>

theorem blank_goal_reaches_backend:
  "py_strip (goal blank_goal_form) = []
   \<and> length (openai_calls (snd (main_app_page demo_env blank_goal_form fresh_world))) = 1
   \<and> length (store_calls (snd (main_app_page demo_env blank_goal_form fresh_world))) = 1
   \<and> goal no_goal_form = [] \<and> context_text no_goal_form \<noteq> []
   \<and> goal no_context_form \<noteq> [] \<and> context_text no_context_form = []
   \<and> ui (snd (main_app_page demo_env no_goal_form fresh_world)) =
       ui (snd (main_app_page demo_env no_context_form fresh_world))"
proof -
  have strip: "py_strip (goal blank_goal_form) = []"
    by (simp add: blank_goal_form_def haiku_form_def strip_defs)
  have ok: "submit_button blank_goal_form" "goal blank_goal_form \<noteq> []"
    "context_text blank_goal_form \<noteq> []" "output_format blank_goal_form \<noteq> []"
    by (simp_all add: blank_goal_form_def haiku_form_def)
  have calls: "length (openai_calls (snd (main_app_page demo_env blank_goal_form fresh_world))) = 1"
    using main_app_page_saved [OF ok haiku_generated]
    by (simp add: show_generated_prompt_frame save_to_airtable_frame)
  have saves: "length (store_calls (snd (main_app_page demo_env blank_goal_form fresh_world))) = 1"
    using main_app_page_saved [OF ok haiku_generated]
    by (simp add: show_generated_prompt_frame save_to_airtable_def demo_env_def table_A_def
        emit_simps Let_def fresh_world_def)
  have g: "main_app_page demo_env no_goal_form fresh_world =
      (Returned, fresh_world\<lparr>ui := ui fresh_world @ [St_warning
          ''Please fill out all the required fields to generate a high-quality prompt.'']\<rparr>)"
    by (simp add: main_app_page_def py_all_def truthy_def emit_def no_goal_form_def
        haiku_form_def)
  have c: "main_app_page demo_env no_context_form fresh_world =
      (Returned, fresh_world\<lparr>ui := ui fresh_world @ [St_warning
          ''Please fill out all the required fields to generate a high-quality prompt.'']\<rparr>)"
    by (simp add: main_app_page_def py_all_def truthy_def emit_def no_context_form_def
        haiku_form_def)
  have f: "goal no_goal_form = [] \<and> context_text no_goal_form \<noteq> []
   \<and> goal no_context_form \<noteq> [] \<and> context_text no_context_form = []"
    by (simp add: no_goal_form_def no_context_form_def haiku_form_def)
  show ?thesis using strip calls saves f by (simp add: g c)
qed

lemma call_openai_api_success:
  assumes "fst (call_openai_api e sp up w) = Some gp"
  shows "ui (snd (call_openai_api e sp up w)) = ui w"
  using assms
  by (auto simp: call_openai_api_def emit_simps Let_def
      split: option.splits openai_result.splits list.splits if_splits)

lemma main_app_page_requests:
  assumes "submit_button inp" "goal inp \<noteq> []" "context_text inp \<noteq> []"
    "output_format inp \<noteq> []"
  shows "openai_calls (snd (main_app_page e inp w)) =
         openai_calls (snd (call_openai_api e system_prompt_for_generation
                              (Str (user_input_summary inp)) w))"
proof -
  let ?c = "call_openai_api e system_prompt_for_generation (Str (user_input_summary inp)) w"
  show ?thesis
  proof (cases "fst ?c = None \<or> fst ?c = Some []")
    case True
    then show ?thesis
      using main_app_page_not_saved [OF assms] by (simp add: show_generated_prompt_frame)
  next
    case False
    then obtain gp where gp: "?c = (Some gp, snd ?c)" "gp \<noteq> []"
      by (cases "fst ?c") (auto simp: prod_eq_iff)
    show ?thesis
      using main_app_page_saved [OF assms gp]
      by (simp add: show_generated_prompt_frame save_to_airtable_frame)
  qed
qed

text \<open>
  C2. For a submission that passes the check, with a client configured, exactly one
  request is sent, and the content of its user message is the five fields under the
  headings \<open>**Goal:**\<close>, \<open>**Context:**\<close>, \<open>**Desired Format:**\<close>,
  \<open>**Tone of Voice:**\<close>, \<open>**Constraints:**\<close>, in this order, each heading followed by
  a line feed and each of the first four sections by an empty line. It depends on
  nothing but the five fields: two runs with the same fields, in any two surroundings
  and states, send the same bytes. The constraints section is there for any
  \<open>constraints\<close>, the empty one included.
\<close>

theorem user_payload_is_fixed_template:
  assumes "submit_button inp" "goal inp \<noteq> []" "context_text inp \<noteq> []"
    "output_format inp \<noteq> []"
    and "openai_client e1 = Some c1" and "openai_client e2 = Some c2"
  shows "\<exists>r1 r2. openai_calls (snd (main_app_page e1 inp w1)) = openai_calls w1 @ [r1]
       \<and> openai_calls (snd (main_app_page e2 inp w2)) = openai_calls w2 @ [r2]
       \<and> user_content r1 =
           Str (''**Goal:**\<newline>'' @ goal inp @ ''\<newline>\<newline>'' @
                ''**Context:**\<newline>'' @ context_text inp @ ''\<newline>\<newline>'' @
                ''**Desired Format:**\<newline>'' @ output_format inp @ ''\<newline>\<newline>'' @
                ''**Tone of Voice:**\<newline>'' @ tone_label (tone inp) @ ''\<newline>\<newline>'' @
                ''**Constraints:**\<newline>'' @ constraints inp @ ''\<newline>'')
       \<and> user_content r2 = user_content r1"
  using main_app_page_requests [OF assms(1-4), of e1 w1]
    main_app_page_requests [OF assms(1-4), of e2 w2]
    call_openai_api_one_request [OF assms(5)] call_openai_api_one_request [OF assms(6)]
  by (simp add: user_input_summary_def)

theorem user_payload_is_fixed_template_witness:
  "submit_button haiku_form \<and> goal haiku_form \<noteq> [] \<and> context_text haiku_form \<noteq> []
   \<and> output_format haiku_form \<noteq> []
   \<and> openai_client demo_env = Some poet_client
   \<and> openai_client rate_limited_env = Some rate_limited_client
   \<and> (\<exists>r1 r2. openai_calls (snd (main_app_page demo_env haiku_form fresh_world)) = [r1]
       \<and> openai_calls (snd (main_app_page rate_limited_env haiku_form logged_in_world)) = [r2]
       \<and> user_content r1 =
           Str (''**Goal:**\<newline>Write a haiku\<newline>\<newline>'' @
                ''**Context:**\<newline>about autumn\<newline>\<newline>'' @
                ''**Desired Format:**\<newline>3 lines\<newline>\<newline>'' @
                ''**Tone of Voice:**\<newline>Casual\<newline>\<newline>'' @
                ''**Constraints:**\<newline>\<newline>'')
       \<and> user_content r2 = user_content r1)"
proof -
  have a: "submit_button haiku_form" "goal haiku_form \<noteq> []" "context_text haiku_form \<noteq> []"
    "output_format haiku_form \<noteq> []"
    by (simp_all add: haiku_form_def)
  have b: "openai_client demo_env = Some poet_client"
    by (simp add: demo_env_def)
  have c: "openai_client rate_limited_env = Some rate_limited_client"
    by (simp add: rate_limited_env_def demo_env_def)
  have d: "openai_calls fresh_world = []" "openai_calls logged_in_world = []"
    by (simp_all add: fresh_world_def logged_in_world_def)
  have f: "goal haiku_form = ''Write a haiku''" "context_text haiku_form = ''about autumn''"
    "output_format haiku_form = ''3 lines''" "tone_label (tone haiku_form) = ''Casual''"
    "constraints haiku_form = []"
    by (simp_all add: haiku_form_def)
  show ?thesis
    using a b c user_payload_is_fixed_template [OF a b c, of fresh_world logged_in_world]
    by (simp add: d f)
qed

lemma save_to_airtable_fails:
  assumes "airtable_table e = None
       \<or> (\<exists>t ex. airtable_table e = Some t \<and> create_raises t (airtable_rows w) d = Some ex)"
  shows "fst (save_to_airtable e d w) = False"
    and "airtable_rows (snd (save_to_airtable e d w)) = airtable_rows w"
    and "\<exists>notice. (notice = St_warning ''Airtable is not configured. Data not saved.''
            \<or> (\<exists>ex. notice = St_error (''Failed to save data to Airtable: '' @ exc_str ex)))
          \<and> ui (snd (save_to_airtable e d w)) = ui w @ [notice]"
  using assms
  by (auto simp: save_to_airtable_def emit_simps Let_def split: option.splits)

text \<open>
  C3. When the synthesis of a submission returned a non-empty prompt and the save fails
  (the table is not configured, or \<open>create\<close> raises), \<open>save_to_airtable\<close> returns
  \<open>False\<close> and the page returns normally: the prompt is in the session state, the screen
  shows one notice for the failed save (a warning when the table is not configured, an
  error with the exception text when \<open>create\<close> raised), then the success message, the
  prompt in the code box and the download button. No row is written.
\<close>

theorem store_failure_keeps_generated_prompt:
  assumes "submit_button inp" "goal inp \<noteq> []" "context_text inp \<noteq> []"
    "output_format inp \<noteq> []"
    and "fst (call_openai_api e system_prompt_for_generation (Str (user_input_summary inp)) w)
           = Some gp"
    and "gp \<noteq> []"
    and "airtable_table e = None
       \<or> (\<exists>t ex. airtable_table e = Some t
              \<and> create_raises t (airtable_rows w) (airtable_data e inp gp) = Some ex)"
  shows "fst (main_app_page e inp w) = Returned
       \<and> session_generated_prompt (snd (main_app_page e inp w)) = Some gp
       \<and> airtable_rows (snd (main_app_page e inp w)) = airtable_rows w
       \<and> (\<exists>notice.
            (notice = St_warning ''Airtable is not configured. Data not saved.''
             \<or> (\<exists>ex. notice = St_error (''Failed to save data to Airtable: '' @ exc_str ex)))
          \<and> ui (snd (main_app_page e inp w)) =
              ui w @ [notice,
                      St_success ([CHR 0xE2, CHR 0x9C, CHR 0x85] @
                                  '' Prompt successfully generated!''),
                      St_code (Str gp), St_download_button gp])
       \<and> fst (save_to_airtable e (airtable_data e inp gp)
                ((snd (call_openai_api e system_prompt_for_generation
                         (Str (user_input_summary inp)) w))
                 \<lparr>session_generated_prompt := Some gp\<rparr>)) = False"
proof -
  let ?c = "call_openai_api e system_prompt_for_generation (Str (user_input_summary inp)) w"
  let ?w1 = "(snd ?c)\<lparr>session_generated_prompt := Some gp\<rparr>"
  let ?s = "save_to_airtable e (airtable_data e inp gp) ?w1"
  have c: "?c = (Some gp, snd ?c)"
    using assms(5) by (simp add: prod_eq_iff)
  have page: "main_app_page e inp w = (Returned, show_generated_prompt (snd ?s))"
    using main_app_page_saved [OF assms(1-4) c assms(6)] .
  have rows1: "airtable_rows ?w1 = airtable_rows w"
    by (simp add: call_openai_api_frame)
  have ui1: "ui ?w1 = ui w"
    using call_openai_api_success [OF assms(5)] by simp
  have fails: "airtable_table e = None
       \<or> (\<exists>t ex. airtable_table e = Some t
              \<and> create_raises t (airtable_rows ?w1) (airtable_data e inp gp) = Some ex)"
    using assms(7) by (simp only: rows1)
  note f = save_to_airtable_fails [OF fails]
  obtain notice where n:
    "notice = St_warning ''Airtable is not configured. Data not saved.''
       \<or> (\<exists>ex. notice = St_error (''Failed to save data to Airtable: '' @ exc_str ex))"
    "ui (snd ?s) = ui w @ [notice]"
    using f(3) ui1 by auto
  have sess: "session_generated_prompt (snd ?s) = Some gp"
    by (simp add: save_to_airtable_frame)
  have shown: "ui (show_generated_prompt (snd ?s)) =
      ui w @ [notice, St_success ([CHR 0xE2, CHR 0x9C, CHR 0x85] @
                                  '' Prompt successfully generated!''),
              St_code (Str gp), St_download_button gp]"
    by (simp add: show_generated_prompt_def sess emit_simps n(2))
  show ?thesis
    using n(1) shown f(1) f(2) sess
    by (simp only: page fst_conv snd_conv show_generated_prompt_frame rows1) blast
qed

theorem store_failure_keeps_generated_prompt_witness:
  "submit_button haiku_form \<and> goal haiku_form \<noteq> [] \<and> context_text haiku_form \<noteq> []
   \<and> output_format haiku_form \<noteq> []
   \<and> fst (call_openai_api broken_store_env system_prompt_for_generation
            (Str (user_input_summary haiku_form)) fresh_world)
       = Some ''You are a poet. Write a haiku about autumn in 3 lines.''
   \<and> (\<exists>t ex. airtable_table broken_store_env = Some t
          \<and> create_raises t (airtable_rows fresh_world)
               (airtable_data broken_store_env haiku_form
                  ''You are a poet. Write a haiku about autumn in 3 lines.'') = Some ex)
   \<and> fst (main_app_page broken_store_env haiku_form fresh_world) = Returned
   \<and> session_generated_prompt (snd (main_app_page broken_store_env haiku_form fresh_world))
       = Some ''You are a poet. Write a haiku about autumn in 3 lines.''
   \<and> airtable_rows (snd (main_app_page broken_store_env haiku_form fresh_world)) = []"
proof -
  have a: "submit_button haiku_form" "goal haiku_form \<noteq> []" "context_text haiku_form \<noteq> []"
    "output_format haiku_form \<noteq> []"
    by (simp_all add: haiku_form_def)
  have b: "fst (call_openai_api broken_store_env system_prompt_for_generation
            (Str (user_input_summary haiku_form)) fresh_world)
       = Some ''You are a poet. Write a haiku about autumn in 3 lines.''"
    by (simp add: call_openai_api_def broken_store_env_def demo_env_def poet_client_def
        Let_def strip_defs)
  have c: "''You are a poet. Write a haiku about autumn in 3 lines.'' \<noteq> []"
    by simp
  have d: "\<exists>t ex. airtable_table broken_store_env = Some t
          \<and> create_raises t (airtable_rows fresh_world)
               (airtable_data broken_store_env haiku_form
                  ''You are a poet. Write a haiku about autumn in 3 lines.'') = Some ex"
    by (simp add: broken_store_env_def demo_env_def broken_table_def)
  have f: "airtable_rows fresh_world = []"
    by (simp add: fresh_world_def)
  show ?thesis
    using a b d store_failure_keeps_generated_prompt [OF a b c disjI2 [OF d]]
    by (simp add: f)
qed

lemma save_to_airtable_writes:
  "(store_calls (snd (save_to_airtable e d w)) = store_calls w
     \<and> airtable_rows (snd (save_to_airtable e d w)) = airtable_rows w)
   \<or> (store_calls (snd (save_to_airtable e d w)) = store_calls w @ [Create d]
     \<and> (airtable_rows (snd (save_to_airtable e d w)) = airtable_rows w
        \<or> (\<exists>rid. airtable_rows (snd (save_to_airtable e d w)) =
                    airtable_rows w @ [\<lparr>record_id = rid, record_fields = d\<rparr>])))"
  by (simp add: save_to_airtable_def emit_simps Let_def split: option.splits)

lemma admin_page_rows: "airtable_rows (snd (admin_page e inp w)) = airtable_rows w"
  by (simp add: admin_page_def admin_gate_def admin_panel_frame Let_def init_logged_in_frame
      emit_simps)

text \<open>
  C6. Whenever a run of the prompt page calls the table or changes its rows, the form
  was submitted, \<open>call_openai_api\<close> returned a non-empty prompt, and the one call made is
  the \<open>create\<close> of the record built from the form with that prompt under
  \<open>GeneratedPrompt\<close>. A failed or empty generation writes nothing.
\<close>

theorem only_generated_prompts_are_saved:
  assumes "store_calls (snd (main_app_page e inp w)) \<noteq> store_calls w
         \<or> airtable_rows (snd (main_app_page e inp w)) \<noteq> airtable_rows w"
  shows "\<exists>gp. gp \<noteq> [] \<and> submit_button inp
       \<and> fst (call_openai_api e system_prompt_for_generation
                (Str (user_input_summary inp)) w) = Some gp
       \<and> map_of (airtable_data e inp gp) ''GeneratedPrompt'' = Some gp
       \<and> store_calls (snd (main_app_page e inp w)) =
           store_calls w @ [Create (airtable_data e inp gp)]
       \<and> (airtable_rows (snd (main_app_page e inp w)) = airtable_rows w
          \<or> (\<exists>rid. airtable_rows (snd (main_app_page e inp w)) =
                airtable_rows w @ [\<lparr>record_id = rid, record_fields = airtable_data e inp gp\<rparr>]))"
proof -
  let ?c = "call_openai_api e system_prompt_for_generation (Str (user_input_summary inp)) w"
  have submitted: "submit_button inp"
  proof (rule ccontr)
    assume "\<not> submit_button inp"
    then have "main_app_page e inp w = (Returned, show_generated_prompt w)"
      by (simp add: main_app_page_def)
    with assms show False by (simp add: show_generated_prompt_frame)
  qed
  have all_filled: "goal inp \<noteq> [] \<and> context_text inp \<noteq> [] \<and> output_format inp \<noteq> []"
  proof (rule ccontr)
    assume "\<not> (goal inp \<noteq> [] \<and> context_text inp \<noteq> [] \<and> output_format inp \<noteq> [])"
    then have "main_app_page e inp w = (Returned, emit (St_warning
       ''Please fill out all the required fields to generate a high-quality prompt.'') w)"
      using submitted by (auto simp: main_app_page_def py_all_def truthy_def)
    with assms show False by (simp add: emit_simps)
  qed
  then have filled: "goal inp \<noteq> []" "context_text inp \<noteq> []" "output_format inp \<noteq> []"
    by simp_all
  have "\<not> (fst ?c = None \<or> fst ?c = Some [])"
  proof
    assume "fst ?c = None \<or> fst ?c = Some []"
    from main_app_page_not_saved [OF submitted filled this] assms show False
      by (simp add: show_generated_prompt_frame call_openai_api_frame)
  qed
  then obtain gp where gp: "?c = (Some gp, snd ?c)" "gp \<noteq> []"
    by (cases "fst ?c") (auto simp: prod_eq_iff)
  let ?w1 = "(snd ?c)\<lparr>session_generated_prompt := Some gp\<rparr>"
  have page: "main_app_page e inp w =
      (Returned, show_generated_prompt (snd (save_to_airtable e (airtable_data e inp gp) ?w1)))"
    using main_app_page_saved [OF submitted filled gp] .
  have before: "store_calls ?w1 = store_calls w" "airtable_rows ?w1 = airtable_rows w"
    by (simp_all add: call_openai_api_frame)
  have key: "map_of (airtable_data e inp gp) ''GeneratedPrompt'' = Some gp"
    by (simp add: airtable_data_def)
  have fst_c: "fst ?c = Some gp"
    using gp(1) by (metis fst_conv)
  show ?thesis
    using save_to_airtable_writes [of e "airtable_data e inp gp" ?w1] assms gp(2) submitted
      key fst_c
    by (simp only: page snd_conv show_generated_prompt_frame before) blast
qed

theorem only_generated_prompts_are_saved_witness:
  "store_calls (snd (main_app_page demo_env haiku_form fresh_world)) \<noteq> store_calls fresh_world
   \<and> (\<exists>gp. gp \<noteq> []
        \<and> fst (call_openai_api demo_env system_prompt_for_generation
                 (Str (user_input_summary haiku_form)) fresh_world) = Some gp
        \<and> store_calls (snd (main_app_page demo_env haiku_form fresh_world)) =
            [Create (airtable_data demo_env haiku_form gp)])"
proof -
  have a: "submit_button haiku_form" "goal haiku_form \<noteq> []" "context_text haiku_form \<noteq> []"
    "output_format haiku_form \<noteq> []"
    by (simp_all add: haiku_form_def)
  have h: "store_calls (snd (main_app_page demo_env haiku_form fresh_world))
             \<noteq> store_calls fresh_world"
    using main_app_page_saved [OF a haiku_generated]
    by (simp add: show_generated_prompt_frame save_to_airtable_def demo_env_def table_A_def
        emit_simps Let_def fresh_world_def)
  have f: "store_calls fresh_world = []"
    by (simp add: fresh_world_def)
  show ?thesis
    using h only_generated_prompts_are_saved [OF disjI1 [OF h]]
    by (simp only: f append_Nil) blast
qed

text \<open>
  A run on which the completion answers with blanks only: the stripped answer is empty,
  one request was sent, nothing is kept in the session and nothing is saved.
\<close>

lemma blank_answer_is_not_saved:
  "fst (call_openai_api blank_answer_env system_prompt_for_generation
          (Str (user_input_summary haiku_form)) fresh_world) = Some []
   \<and> length (openai_calls (snd (main_app_page blank_answer_env haiku_form fresh_world))) = 1
   \<and> store_calls (snd (main_app_page blank_answer_env haiku_form fresh_world)) = []
   \<and> session_generated_prompt (snd (main_app_page blank_answer_env haiku_form fresh_world))
       = None"
proof -
  have a: "submit_button haiku_form" "goal haiku_form \<noteq> []" "context_text haiku_form \<noteq> []"
    "output_format haiku_form \<noteq> []"
    by (simp_all add: haiku_form_def)
  have c: "call_openai_api blank_answer_env sp up fresh_world =
      (Some [], fresh_world\<lparr>openai_calls :=
         [\<lparr>model = ''gpt-5'', system_content = sp, user_content = up,
           temperature = 7 / 10, max_tokens = 1500\<rparr>]\<rparr>)" for sp up
    by (simp add: call_openai_api_def blank_answer_env_def demo_env_def blank_client_def
        fresh_world_def Let_def strip_defs)
  have "main_app_page blank_answer_env haiku_form fresh_world =
      (Returned, show_generated_prompt (snd (call_openai_api blank_answer_env
         system_prompt_for_generation (Str (user_input_summary haiku_form)) fresh_world)))"
    by (rule main_app_page_not_saved [OF a]) (simp add: c)
  moreover have "store_calls fresh_world = []" "session_generated_prompt fresh_world = None"
    by (simp_all add: fresh_world_def)
  ultimately show ?thesis
    by (simp add: c show_generated_prompt_frame)
qed

section \<open>The store\<close>

lemma main_app_page_rows:
  "airtable_rows (snd (main_app_page e inp w)) = airtable_rows w
   \<or> (\<exists>row. airtable_rows (snd (main_app_page e inp w)) = airtable_rows w @ [row])"
proof -
  have "airtable_rows (snd (save_to_airtable e d w1)) = airtable_rows w
      \<or> (\<exists>row. airtable_rows (snd (save_to_airtable e d w1)) = airtable_rows w @ [row])"
    if "airtable_rows w1 = airtable_rows w" for d w1
    using save_to_airtable_writes [of e d w1] that by auto
  then show ?thesis
    by (simp add: main_app_page_def case_prod_beta show_generated_prompt_frame emit_simps
        call_openai_api_frame split: option.splits)
qed

lemma main_rows:
  "\<exists>new. airtable_rows (snd (main e inp w)) = airtable_rows w @ new"
  using main_app_page_rows [of e "form inp" w]
  by (auto simp: main_def admin_page_rows split: page.splits)

lemma session_rows:
  "\<exists>new. airtable_rows (snd (session runs w)) = airtable_rows w @ new"
proof (induction runs arbitrary: w)
  case Nil
  then show ?case by simp
next
  case (Cons run runs)
  obtain e inp where run: "run = (e, inp)" by (cases run)
  obtain a where a: "airtable_rows (snd (main e inp w)) = airtable_rows w @ a"
    using main_rows by blast
  obtain b where b: "airtable_rows (snd (session runs (snd (main e inp w)))) =
      airtable_rows (snd (main e inp w)) @ b"
    using Cons.IH by blast
  show ?case by (simp add: run case_prod_beta a b)
qed

text \<open>
  C4, as the code has it. When the table is configured and \<open>create\<close> does not raise,
  \<open>save_to_airtable\<close> returns \<open>True\<close>: the record that \<open>create\<close> returns, and with
  it the identifier, is dropped. The table gains one row, holding the data as sent under
  the identifier the store chose. No later run of either page changes or removes that
  row or the rows before it: the program only ever appends.
\<close>

theorem save_returns_true_and_rows_persist:
  assumes "airtable_table e = Some t"
    and "create_raises t (airtable_rows w) d = None"
  shows "fst (save_to_airtable e d w) = True
       \<and> airtable_rows (snd (save_to_airtable e d w)) =
           airtable_rows w @ [\<lparr>record_id = assign_id t (airtable_rows w) d, record_fields = d\<rparr>]
       \<and> (\<exists>later. airtable_rows (snd (session runs (snd (save_to_airtable e d w)))) =
             airtable_rows w @ [\<lparr>record_id = assign_id t (airtable_rows w) d, record_fields = d\<rparr>]
               @ later)"
proof -
  have s: "fst (save_to_airtable e d w) = True"
    "airtable_rows (snd (save_to_airtable e d w)) =
       airtable_rows w @ [\<lparr>record_id = assign_id t (airtable_rows w) d, record_fields = d\<rparr>]"
    using assms by (simp_all add: save_to_airtable_def emit_simps Let_def)
  obtain later where "airtable_rows (snd (session runs (snd (save_to_airtable e d w)))) =
      airtable_rows (snd (save_to_airtable e d w)) @ later"
    using session_rows by blast
  then show ?thesis using s by simp
qed

theorem save_returns_true_and_rows_persist_witness:
  "airtable_table demo_env = Some table_A
   \<and> create_raises table_A (airtable_rows logged_in_world) [(''Goal'', ''x'')] = None
   \<and> fst (save_to_airtable demo_env [(''Goal'', ''x'')] logged_in_world) = True
   \<and> airtable_rows (snd (save_to_airtable demo_env [(''Goal'', ''x'')] logged_in_world)) =
       [stored_haiku, \<lparr>record_id = ''recA'', record_fields = [(''Goal'', ''x'')]\<rparr>]
   \<and> (\<exists>later. airtable_rows (snd (session [(demo_env, prompt_run), (demo_env, wrong_login_run)]
                  (snd (save_to_airtable demo_env [(''Goal'', ''x'')] logged_in_world)))) =
       [stored_haiku, \<lparr>record_id = ''recA'', record_fields = [(''Goal'', ''x'')]\<rparr>] @ later)"
proof -
  have a: "airtable_table demo_env = Some table_A"
    by (simp add: demo_env_def)
  have b: "create_raises table_A (airtable_rows logged_in_world) [(''Goal'', ''x'')] = None"
    by (simp add: table_A_def)
  have c: "airtable_rows logged_in_world = [stored_haiku]"
    by (simp add: logged_in_world_def fresh_world_def)
  have d: "assign_id table_A rows data = ''recA''" for rows data
    by (simp add: table_A_def)
  show ?thesis
    using a b save_returns_true_and_rows_persist
      [OF a b, of "[(demo_env, prompt_run), (demo_env, wrong_login_run)]"]
    by (simp add: c d)
qed

text \<open>
  C4 as stated fails: \<open>save_to_airtable\<close> does not return the identifier. Against two
  tables that assign different identifiers to the same data it returns the same value,
  \<open>True\<close>.
\<close>

theorem save_result_does_not_carry_the_id:
  "fst (save_to_airtable demo_env [(''Goal'', ''x'')] fresh_world) = True
   \<and> fst (save_to_airtable table_B_env [(''Goal'', ''x'')] fresh_world) = True
   \<and> map record_id (airtable_rows (snd (save_to_airtable demo_env [(''Goal'', ''x'')] fresh_world)))
       = [''recA'']
   \<and> map record_id (airtable_rows (snd (save_to_airtable table_B_env [(''Goal'', ''x'')] fresh_world)))
       = [''recB'']"
  by (simp add: save_to_airtable_def table_B_env_def demo_env_def table_A_def table_B_def
      fresh_world_def emit_simps Let_def)

section \<open>The analyses of the admin panel\<close>

lemma py_strip_unicode:
  "py_strip ([CHR 0xC2, CHR 0xA0] @ '' {} '' @ [CHR 0xE2, CHR 0x80, CHR 0x83, CHR 0xE3, CHR 0x80, CHR 0x80])
     = ''{}''"
  by (simp add: strip_defs)

lemma strip_front_plain:
  assumes "\<not> py_isspace c" and "\<And>b. \<not> sp2 c b" and "\<And>a b. \<not> sp3 c a b"
  shows "strip_front sp2 sp3 (c # s) = c # s"
proof (cases s)
  case Nil
  then show ?thesis using assms by simp
next
  case (Cons b t)
  then show ?thesis using assms by (cases t) simp_all
qed

lemma deep_brackets_Cons: "deep_brackets = CHR ''['' # replicate 999 CHR ''[''"
  by (simp add: deep_brackets_def replicate_Suc [symmetric] del: replicate_Suc)

lemma py_strip_deep_brackets: "py_strip deep_brackets = deep_brackets"
proof -
  note d = deep_brackets_Cons
  have r: "rev deep_brackets = deep_brackets"
    by (simp add: deep_brackets_def)
  have l: "py_lstrip deep_brackets = deep_brackets"
    unfolding py_lstrip_def
    by (subst (1 2) d, rule strip_front_plain)
      (simp_all add: py_isspace_def py_isspace2_def py_isspace3_def)
  have "strip_front (\<lambda>b a. py_isspace2 a b) (\<lambda>c b a. py_isspace3 a b c) deep_brackets
      = deep_brackets"
    by (subst (1 2) d, rule strip_front_plain)
      (simp_all add: py_isspace_def py_isspace2_def py_isspace3_def)
  then show ?thesis
    by (simp add: py_strip_def py_rstrip_def l r)
qed

lemma deep_brackets_recursion:
  "braces_json_loads deep_brackets = Inl (RecursionError
     ''maximum recursion depth exceeded while decoding a JSON array from a unicode string'')"
proof -
  have "deep_brackets \<noteq> ''{}''"
    by (subst deep_brackets_Cons) simp
  moreover have "length (takeWhile (\<lambda>c. c = CHR ''['') deep_brackets) = 1000"
    by (simp add: deep_brackets_def takeWhile_replicate)
  ultimately show ?thesis
    by (simp add: braces_json_loads_def)
qed

lemma selectbox_in: "options \<noteq> [] \<Longrightarrow> selectbox options i \<in> set options"
  by (simp add: selectbox_def)

lemma admin_page_logged_in:
  "session_logged_in w = Some True \<Longrightarrow> admin_page e inp w = admin_panel e inp w"
  by (simp add: admin_page_def init_logged_in_def)

lemma fetch_from_airtable_rows:
  assumes "airtable_table e = Some t" and "all_raises t (airtable_rows w) = None"
  shows "fetch_from_airtable e w = (airtable_rows w, w\<lparr>store_calls := store_calls w @ [ListAll]\<rparr>)"
  using assms by (simp add: fetch_from_airtable_def Let_def)

lemma dropna_generated_prompts:
  "dropna (map (\<lambda>r. df_cell r ''GeneratedPrompt'') records) =
   List.map_filter (\<lambda>r. map_of (record_fields r) ''GeneratedPrompt'') records"
  by (induction records) (simp_all add: df_cell_def split: option.splits)

text \<open>
  The selection of a record when the analyze button is not pressed: the selected prompt
  is shown and nothing else happens.
\<close>

lemma analyze_single_idle:
  assumes "records \<noteq> []" and "df_has_column records ''GeneratedPrompt''"
    and "\<not> analyze_button inp"
  shows "\<exists>shown. analyze_single e inp records w = (Returned, emit (St_code shown) w)
               \<or> analyze_single e inp records w = (Returned, w)"
proof -
  let ?sel = "selectbox (map record_id records) (selected_index inp)"
  have "?sel \<in> set (map record_id records)"
    using assms(1) by (intro selectbox_in) simp
  then have "filter (\<lambda>r. record_id r = ?sel) records \<noteq> []"
    by (auto simp: filter_empty_conv)
  then show ?thesis
    using assms(2,3)
    by (auto simp: analyze_single_def Let_def split: list.splits)
qed

text \<open>
  The batch section on a frame that has the column: one request, whose user message is
  the prompts of the records that have one, joined by the separator, and then the report
  or the notice that there is none.
\<close>

lemma batch_trend_analysis_request:
  assumes "batch_button inp" and "df_has_column records ''GeneratedPrompt''"
    and "openai_client e = Some client"
  shows "fst (batch_trend_analysis e inp records w) = Returned"
    and "openai_calls (snd (batch_trend_analysis e inp records w)) =
         openai_calls w @
         [\<lparr>model = OPENAI_MODEL_NAME e,
           system_content = ''You are a data analyst specializing in AI prompt trends...'',
           user_content = Str (py_join ''\<newline>\<newline>---\<newline>\<newline>''
             (List.map_filter (\<lambda>r. map_of (record_fields r) ''GeneratedPrompt'') records)),
           temperature = 7 / 10, max_tokens = 1500\<rparr>]"
    and "\<exists>evs report. ui (snd (batch_trend_analysis e inp records w)) =
           ui w @ evs @ [St_markdown report]"
proof -
  let ?payload = "Str (py_join batch_separator
      (dropna (map (\<lambda>r. df_cell r ''GeneratedPrompt'') records)))"
  obtain evs where evs: "ui (snd (call_openai_api e batch_system_prompt ?payload w)) = ui w @ evs"
    using call_openai_api_ui by blast
  show "fst (batch_trend_analysis e inp records w) = Returned"
    using assms by (simp add: batch_trend_analysis_def Let_def case_prod_beta)
  show "openai_calls (snd (batch_trend_analysis e inp records w)) =
         openai_calls w @
         [\<lparr>model = OPENAI_MODEL_NAME e,
           system_content = ''You are a data analyst specializing in AI prompt trends...'',
           user_content = Str (py_join ''\<newline>\<newline>---\<newline>\<newline>''
             (List.map_filter (\<lambda>r. map_of (record_fields r) ''GeneratedPrompt'') records)),
           temperature = 7 / 10, max_tokens = 1500\<rparr>]"
    using assms call_openai_api_one_request [OF assms(3)]
    by (simp add: batch_trend_analysis_def Let_def case_prod_beta emit_simps
        dropna_generated_prompts batch_system_prompt_def batch_separator_def)
  show "\<exists>evs report. ui (snd (batch_trend_analysis e inp records w)) =
           ui w @ evs @ [St_markdown report]"
    using assms(1,2) evs
    by (simp add: batch_trend_analysis_def Let_def case_prod_beta emit_simps)
qed

lemma admin_panel_batch:
  assumes "airtable_table e = Some t" and "all_raises t (airtable_rows w) = None"
    and "airtable_rows w \<noteq> []" and "df_has_column (airtable_rows w) ''GeneratedPrompt''"
    and "batch_button inp" and "\<not> analyze_button inp" and "openai_client e = Some client"
  shows "fst (admin_panel e inp w) = Returned"
    and "openai_calls (snd (admin_panel e inp w)) =
         openai_calls w @
         [\<lparr>model = OPENAI_MODEL_NAME e,
           system_content = ''You are a data analyst specializing in AI prompt trends...'',
           user_content = Str (py_join ''\<newline>\<newline>---\<newline>\<newline>''
             (List.map_filter (\<lambda>r. map_of (record_fields r) ''GeneratedPrompt'')
                (airtable_rows w))),
           temperature = 7 / 10, max_tokens = 1500\<rparr>]"
proof -
  let ?w0 = "emit (St_success ''Logged in successfully.'') w"
  let ?w1 = "?w0\<lparr>store_calls := store_calls ?w0 @ [ListAll]\<rparr>"
  let ?w2 = "emit (df_display (airtable_rows w)) ?w1"
  have f: "fetch_from_airtable e ?w0 = (airtable_rows w, ?w1)"
    using fetch_from_airtable_rows [of e t ?w0] assms(1,2) by (simp add: emit_simps)
  obtain w3 where a: "analyze_single e inp (airtable_rows w) ?w2 = (Returned, w3)"
    and calls: "openai_calls w3 = openai_calls w"
    using analyze_single_idle [OF assms(3,4,6), of e ?w2]
    by (auto simp: emit_simps)
  have panel: "admin_panel e inp w = batch_trend_analysis e inp (airtable_rows w) w3"
    using assms(3) by (simp add: admin_panel_def f a)
  show "fst (admin_panel e inp w) = Returned"
    using batch_trend_analysis_request(1) [OF assms(5,4,7)] by (simp add: panel)
  show "openai_calls (snd (admin_panel e inp w)) =
         openai_calls w @
         [\<lparr>model = OPENAI_MODEL_NAME e,
           system_content = ''You are a data analyst specializing in AI prompt trends...'',
           user_content = Str (py_join ''\<newline>\<newline>---\<newline>\<newline>''
             (List.map_filter (\<lambda>r. map_of (record_fields r) ''GeneratedPrompt'')
                (airtable_rows w))),
           temperature = 7 / 10, max_tokens = 1500\<rparr>]"
    using batch_trend_analysis_request(2) [OF assms(5,4,7), of w3] by (simp add: panel calls)
qed

text \<open>
  With no record in the table the panel halts at its notice, whatever buttons are
  pressed: the batch section is not reached and no request is sent.
\<close>

lemma admin_panel_no_rows:
  assumes "airtable_table e = Some t" and "all_raises t (airtable_rows w) = None"
    and "airtable_rows w = []"
  shows "admin_panel e inp w =
           (Stopped, w\<lparr>store_calls := store_calls w @ [ListAll],
                       ui := ui w @ [St_success ''Logged in successfully.'',
                         St_warning ''No records found in Airtable or service is not configured.'']\<rparr>)"
proof -
  let ?w0 = "emit (St_success ''Logged in successfully.'') w"
  have "fetch_from_airtable e ?w0 = ([], ?w0\<lparr>store_calls := store_calls ?w0 @ [ListAll]\<rparr>)"
    using fetch_from_airtable_rows [of e t ?w0] assms by (simp add: emit_simps)
  then show ?thesis
    by (simp add: admin_panel_def emit_def)
qed

text \<open>
  When records come back and none of them has a \<open>GeneratedPrompt\<close> field, the data
  frame has no such column: the read at line 153 raises \<open>KeyError\<close> as soon as a record
  is selected, and the page ends there, after the table of records, with no request sent.
\<close>

lemma missing_prompt_column_raises:
  assumes "session_logged_in w = Some True"
    and "airtable_table e = Some t" and "all_raises t (airtable_rows w) = None"
    and "airtable_rows w \<noteq> []"
    and "\<not> df_has_column (airtable_rows w) ''GeneratedPrompt''"
    and "\<forall>r \<in> set (airtable_rows w). record_id r \<noteq> []"
  shows "admin_page e inp w =
           (Raised (KeyError ''GeneratedPrompt''),
            w\<lparr>store_calls := store_calls w @ [ListAll],
              ui := ui w @ [St_success ''Logged in successfully.'',
                            df_display (airtable_rows w)]\<rparr>)"
proof -
  let ?w0 = "emit (St_success ''Logged in successfully.'') w"
  let ?w1 = "?w0\<lparr>store_calls := store_calls ?w0 @ [ListAll]\<rparr>"
  let ?sel = "selectbox (map record_id (airtable_rows w)) (selected_index inp)"
  have f: "fetch_from_airtable e ?w0 = (airtable_rows w, ?w1)"
    using fetch_from_airtable_rows [of e t ?w0] assms(2,3) by (simp add: emit_simps)
  have sel: "?sel \<in> set (map record_id (airtable_rows w))"
    using assms(4) by (intro selectbox_in) simp
  then have found: "filter (\<lambda>r. record_id r = ?sel) (airtable_rows w) \<noteq> []"
    by (auto simp: filter_empty_conv)
  have "?sel \<noteq> []"
    using sel assms(6) by auto
  then have "analyze_single e inp (airtable_rows w) w1 = (Raised (KeyError ''GeneratedPrompt''), w1)"
    for w1
    using found assms(5)
    by (simp add: analyze_single_def Let_def truthy_def split: list.splits)
  then show ?thesis
    using assms(4)
    by (simp add: admin_page_logged_in [OF assms(1)] admin_panel_def f) (simp add: emit_def)
qed

text \<open>
  C7. The claim has the batch trend analysis complete without error when the store holds
  no usable prompt. The code does not. In an authenticated session, on a table whose one
  record has no \<open>GeneratedPrompt\<close> field, with the batch button pressed, the admin
  page shows the login confirmation and the table of records and then ends with
  \<open>KeyError\<close> for \<open>GeneratedPrompt\<close>, raised by the read at line 153: the batch
  section is not reached, no request is sent and no report is shown.
\<close>

theorem batch_analysis_raises_without_prompt_column:
  "session_logged_in manual_row_world = Some True
   \<and> airtable_rows manual_row_world =
       [\<lparr>record_id = ''recMANUAL0000003'',
         record_fields = [(''Goal'', ''Typed into the table by hand'')]\<rparr>]
   \<and> batch_button batch_admin
   \<and> fst (admin_page demo_env batch_admin manual_row_world) = Raised (KeyError ''GeneratedPrompt'')
   \<and> openai_calls (snd (admin_page demo_env batch_admin manual_row_world)) = []
   \<and> ui (snd (admin_page demo_env batch_admin manual_row_world)) =
       [St_success ''Logged in successfully.'',
        St_dataframe [''Goal'', ''record_id'']
          [[Str ''Typed into the table by hand'', Str ''recMANUAL0000003'']]]"
proof -
  have w: "session_logged_in manual_row_world = Some True"
    "airtable_rows manual_row_world =
       [\<lparr>record_id = ''recMANUAL0000003'',
         record_fields = [(''Goal'', ''Typed into the table by hand'')]\<rparr>]"
    "openai_calls manual_row_world = []" "ui manual_row_world = []"
    by (simp_all add: manual_row_world_def logged_in_empty_world_def fresh_world_def
        no_prompt_row_def)
  have pre: "airtable_table demo_env = Some table_A"
    "all_raises table_A (airtable_rows manual_row_world) = None"
    "airtable_rows manual_row_world \<noteq> []"
    "\<not> df_has_column (airtable_rows manual_row_world) ''GeneratedPrompt''"
    "\<forall>r \<in> set (airtable_rows manual_row_world). record_id r \<noteq> []"
    by (simp_all add: w(2) demo_env_def table_A_def df_has_column_def)
  have shown: "df_display (airtable_rows manual_row_world) =
      St_dataframe [''Goal'', ''record_id'']
          [[Str ''Typed into the table by hand'', Str ''recMANUAL0000003'']]"
    by (simp add: w(2) df_display_def display_columns_def df_has_column_def df_cell_def)
  have b: "batch_button batch_admin"
    by (simp add: batch_admin_def idle_admin_def)
  show ?thesis
    using w b missing_prompt_column_raises [OF w(1) pre, of batch_admin]
    by (simp add: shown [unfolded w(2)])
qed

text \<open>
  A run of the batch analysis over three records, the second of which has no prompt: one
  request, with the two prompts joined by the separator.
\<close>

lemma batch_analysis_joins_two_prompts:
  "fst (admin_page demo_env batch_admin three_rows_world) = Returned
   \<and> map user_content (openai_calls (snd (admin_page demo_env batch_admin three_rows_world))) =
       [Str ''You are a poet.\<newline>\<newline>---\<newline>\<newline>You are an editor.'']"
proof -
  have w: "session_logged_in three_rows_world = Some True"
    "airtable_rows three_rows_world = [stored_haiku, no_prompt_row, stored_summary]"
    "openai_calls three_rows_world = []"
    by (simp_all add: three_rows_world_def logged_in_empty_world_def fresh_world_def)
  have pre: "airtable_table demo_env = Some table_A"
    "all_raises table_A (airtable_rows three_rows_world) = None"
    "airtable_rows three_rows_world \<noteq> []"
    "df_has_column (airtable_rows three_rows_world) ''GeneratedPrompt''"
    "batch_button batch_admin" "\<not> analyze_button batch_admin"
    "openai_client demo_env = Some poet_client"
    by (simp_all add: w(2) demo_env_def table_A_def df_has_column_def stored_haiku_def
        batch_admin_def idle_admin_def)
  show ?thesis
    using admin_panel_batch [OF pre]
    by (simp add: admin_page_logged_in [OF w(1)] w(2,3) stored_haiku_def no_prompt_row_def
        stored_summary_def)
qed

text \<open>A run of the admin page on an empty table with the batch button pressed.\<close>

lemma batch_analysis_on_empty_table:
  "admin_page demo_env batch_admin logged_in_empty_world =
     (Stopped, logged_in_empty_world\<lparr>store_calls := [ListAll],
        ui := [St_success ''Logged in successfully.'',
               St_warning ''No records found in Airtable or service is not configured.'']\<rparr>)"
proof -
  have w: "session_logged_in logged_in_empty_world = Some True"
    "airtable_rows logged_in_empty_world = []" "store_calls logged_in_empty_world = []"
    "ui logged_in_empty_world = []"
    by (simp_all add: logged_in_empty_world_def fresh_world_def)
  have pre: "airtable_table demo_env = Some table_A"
    "all_raises table_A (airtable_rows logged_in_empty_world) = None"
    by (simp_all add: demo_env_def table_A_def)
  show ?thesis
    using admin_panel_no_rows [OF pre w(2), of batch_admin]
    by (simp add: admin_page_logged_in [OF w(1)] w)
qed

section \<open>The metadata extraction\<close>

lemma show_metadata_parsed:
  "json_loads e s = Inr v \<Longrightarrow> show_metadata e (Some s) w = (Returned, emit (St_json v) w)"
  by (simp add: show_metadata_def json_loads_py_def)

lemma show_metadata_caught:
  assumes "json_loads e s = Inl ex" and "is_JSONDecodeError ex \<or> is_TypeError ex"
  shows "show_metadata e (Some s) w =
           (Returned, emit (St_text (if s \<noteq> [] then s else ''Could not extract metadata.'')) w)"
  using assms by (auto simp: show_metadata_def json_loads_py_def py_or_def truthy_def)

lemma show_metadata_no_text:
  "show_metadata e None w = (Returned, emit (St_text ''Could not extract metadata.'') w)"
  by (simp add: show_metadata_def json_loads_py_def py_or_def)

lemma show_metadata_escapes:
  assumes "json_loads e s = Inl ex" and "\<not> is_JSONDecodeError ex" and "\<not> is_TypeError ex"
  shows "show_metadata e (Some s) w = (Raised ex, w)"
  using assms by (simp add: show_metadata_def json_loads_py_def)

text \<open>
  When \<open>json.loads\<close> raises, on the answer to the metadata request, an exception that
  is neither \<open>JSONDecodeError\<close> nor \<open>TypeError\<close>, the exception leaves the analysis:
  the text is not shown and the third request is not made.
\<close>

lemma analyze_this_prompt_escapes:
  assumes "call_openai_api e quality_system_prompt p w = (q, w1)"
    and "call_openai_api e metadata_system_prompt p
           (emit (St_markdown (py_or q ''Could not generate analysis.'')) w1) = (Some s, w2)"
    and "json_loads e s = Inl ex" and "\<not> is_JSONDecodeError ex" and "\<not> is_TypeError ex"
  shows "analyze_this_prompt e p w = (Raised ex, w2)"
  using assms(1,2) show_metadata_escapes [OF assms(3-5), of w2]
  by (simp add: analyze_this_prompt_def)

lemma bracket_call:
  "call_openai_api bracket_env sp up w =
     (Some deep_brackets,
      w\<lparr>openai_calls := openai_calls w @
           [\<lparr>model = ''gpt-5'', system_content = sp, user_content = up,
             temperature = 7 / 10, max_tokens = 1500\<rparr>]\<rparr>)"
  by (simp add: call_openai_api_def bracket_env_def demo_env_def bracket_client_def Let_def
      py_strip_deep_brackets)

lemma deep_brackets_nonempty: "deep_brackets \<noteq> []"
  by (subst deep_brackets_Cons) simp

text \<open>
  C8. The claim has every answer to the metadata request parsed or else shown as raw text,
  with nothing thrown. The code does not. When the completion answers with 1000 opening
  brackets, \<open>json.loads\<close> raises \<open>RecursionError\<close>, which the handler at line 172
  does not catch: the admin page ends with that exception after the quality analysis,
  the text of the metadata answer is not shown and the third request is not made.
\<close>

theorem deeply_nested_metadata_answer_raises:
  "session_logged_in logged_in_world = Some True
   \<and> airtable_rows logged_in_world = [stored_haiku]
   \<and> analyze_button analyze_admin
   \<and> deep_brackets = replicate 1000 CHR ''[''
   \<and> fst (call_openai_api bracket_env metadata_system_prompt (Str ''You are a poet.'')
            logged_in_world) = Some deep_brackets
   \<and> json_loads bracket_env deep_brackets = Inl (RecursionError
       ''maximum recursion depth exceeded while decoding a JSON array from a unicode string'')
   \<and> fst (admin_page bracket_env analyze_admin logged_in_world) = Raised (RecursionError
       ''maximum recursion depth exceeded while decoding a JSON array from a unicode string'')
   \<and> map system_content
         (openai_calls (snd (admin_page bracket_env analyze_admin logged_in_world))) =
       [''You are a prompt quality analysis expert...'',
        ''You are a metadata extraction AI... Return the output as a clean JSON object.'']
   \<and> ui (snd (admin_page bracket_env analyze_admin logged_in_world)) =
       [St_success ''Logged in successfully.'',
        St_dataframe [''Goal'', ''GeneratedPrompt'', ''record_id'']
          [[Str ''Write a haiku'', Str ''You are a poet.'', Str ''recHAIKU00000001'']],
        St_code (Str ''You are a poet.''),
        St_markdown deep_brackets]"
proof -
  let ?err = "RecursionError
       ''maximum recursion depth exceeded while decoding a JSON array from a unicode string''"
  have w: "session_logged_in logged_in_world = Some True"
    "airtable_rows logged_in_world = [stored_haiku]"
    "openai_calls logged_in_world = []" "ui logged_in_world = []"
    by (simp_all add: logged_in_world_def fresh_world_def)
  have j: "json_loads bracket_env deep_brackets = Inl ?err"
    by (simp add: bracket_env_def demo_env_def deep_brackets_recursion)
  have t: "airtable_table bracket_env = Some table_A"
    "all_raises table_A (airtable_rows logged_in_world) = None"
    by (simp_all add: bracket_env_def demo_env_def table_A_def)
  let ?w0 = "emit (St_success ''Logged in successfully.'') logged_in_world"
  let ?w1 = "?w0\<lparr>store_calls := store_calls ?w0 @ [ListAll]\<rparr>"
  let ?w2 = "emit (df_display [stored_haiku]) ?w1"
  let ?w3 = "emit (St_code (Str ''You are a poet.'')) ?w2"
  have f: "fetch_from_airtable bracket_env ?w0 = ([stored_haiku], ?w1)"
    using fetch_from_airtable_rows [of bracket_env table_A ?w0] t
    by (simp add: emit_simps w(2))
  have shown: "df_display [stored_haiku] =
      St_dataframe [''Goal'', ''GeneratedPrompt'', ''record_id'']
          [[Str ''Write a haiku'', Str ''You are a poet.'', Str ''recHAIKU00000001'']]"
    by (simp add: df_display_def display_columns_def df_has_column_def df_cell_def
        stored_haiku_def)
  obtain w5 where a: "analyze_this_prompt bracket_env (Str ''You are a poet.'') ?w3 =
      (Raised ?err, w5)"
    and calls: "map system_content (openai_calls w5) =
      map system_content (openai_calls ?w3) @ [quality_system_prompt, metadata_system_prompt]"
    and screen: "ui w5 = ui ?w3 @ [St_markdown deep_brackets]"
  proof -
    let ?q = "call_openai_api bracket_env quality_system_prompt (Str ''You are a poet.'') ?w3"
    let ?m = "call_openai_api bracket_env metadata_system_prompt (Str ''You are a poet.'')
        (emit (St_markdown (py_or (Some deep_brackets) ''Could not generate analysis.''))
           (snd ?q))"
    have q: "?q = (Some deep_brackets, snd ?q)"
      by (simp add: bracket_call)
    have m: "?m = (Some deep_brackets, snd ?m)"
      by (simp add: bracket_call)
    have "analyze_this_prompt bracket_env (Str ''You are a poet.'') ?w3 = (Raised ?err, snd ?m)"
      by (rule analyze_this_prompt_escapes [OF q m j]) simp_all
    moreover have "map system_content (openai_calls (snd ?m)) =
      map system_content (openai_calls ?w3) @ [quality_system_prompt, metadata_system_prompt]"
      by (simp add: bracket_call emit_simps)
    moreover have "ui (snd ?m) = ui ?w3 @ [St_markdown deep_brackets]"
      by (simp add: bracket_call emit_simps py_or_def truthy_def deep_brackets_nonempty)
    ultimately show ?thesis using that by blast
  qed
  have single: "analyze_single bracket_env analyze_admin [stored_haiku] ?w2 = (Raised ?err, w5)"
    using a
    by (simp add: analyze_single_def Let_def selectbox_def truthy_def df_has_column_def
        df_cell_def stored_haiku_def analyze_admin_def idle_admin_def)
  have page: "admin_page bracket_env analyze_admin logged_in_world = (Raised ?err, w5)"
    by (simp add: admin_page_logged_in [OF w(1)] admin_panel_def f single)
  have b: "analyze_button analyze_admin"
    by (simp add: analyze_admin_def idle_admin_def)
  have first: "fst (call_openai_api bracket_env metadata_system_prompt (Str ''You are a poet.'')
            logged_in_world) = Some deep_brackets"
    by (simp add: bracket_call)
  show ?thesis
    using w(1,2) b j first calls screen
    by (simp add: page emit_simps w(3,4) shown deep_brackets_def [symmetric]
        quality_system_prompt_def metadata_system_prompt_def)
qed

text \<open>
  A run of the three analyses on a completion that answers \<open>not valid json\<close>: the
  metadata block shows the text as it is, between the two other results.
\<close>

lemma plain_text_analysis_shows_raw_text:
  "analyze_this_prompt plain_text_env (Str ''You are a poet.'') fresh_world =
     (Returned, fresh_world\<lparr>
        openai_calls := map (\<lambda>sp. \<lparr>model = ''gpt-5'', system_content = sp,
                                  user_content = Str ''You are a poet.'',
                                  temperature = 7 / 10, max_tokens = 1500\<rparr>)
          [quality_system_prompt, metadata_system_prompt, summary_system_prompt],
        ui := [St_markdown ''not valid json'', St_text ''not valid json'',
               St_markdown ''not valid json'']\<rparr>)"
proof -
  have c: "call_openai_api plain_text_env sp up w =
     (Some ''not valid json'',
      w\<lparr>openai_calls := openai_calls w @
           [\<lparr>model = ''gpt-5'', system_content = sp, user_content = up,
             temperature = 7 / 10, max_tokens = 1500\<rparr>]\<rparr>)" for sp up w
    by (simp add: call_openai_api_def plain_text_env_def demo_env_def plain_text_client_def
        Let_def strip_defs)
  have j: "json_loads plain_text_env ''not valid json'' = Inl (JSONDecodeError ''Expecting value'')"
    by (simp add: plain_text_env_def demo_env_def braces_json_loads_def)
  have m: "show_metadata plain_text_env (Some ''not valid json'') w =
      (Returned, emit (St_text ''not valid json'') w)" for w
    using show_metadata_caught [OF j, of w] by simp
  show ?thesis
    by (simp add: analyze_this_prompt_def c m py_or_def truthy_def emit_def fresh_world_def)
qed

end
